theory Spec2Isabelle
  imports
    Complex_Main
    "HOL-Library.AList"
    "HOL-Library.Char_ord"
    "HOL-Library.List_Lexorder"
    "HOL-Library.Product_Lexorder"
begin

section \<open>Python values used by the servers\<close>

text \<open>
  Python strings are modelled as \<open>string\<close>, a list of characters whose codes are below 256
  (one \<open>char\<close> per code point). The comparison of two strings is the lexicographic order of
  their code points, as in Python.
\<close>

definition isspace :: "char \<Rightarrow> bool" where
  \<comment> \<open>\<open>str.isspace\<close> on the code points below 256\<close>
  "isspace c = (of_char c \<in> set [9, 10, 11, 12, 13, 28, 29, 30, 31, 32, 133, 160 :: nat])"

fun split_acc :: "string \<Rightarrow> string \<Rightarrow> string list" where
  "split_acc cur [] = (if cur = [] then [] else [cur])"
| "split_acc cur (c # cs) =
     (if isspace c then (if cur = [] then split_acc [] cs else cur # split_acc [] cs)
      else split_acc (cur @ [c]) cs)"

definition str_split :: "string \<Rightarrow> string list" where
  \<comment> \<open>\<open>s.split()\<close>: the maximal runs of non-whitespace characters\<close>
  "str_split s = split_acc [] s"

definition str_strip :: "string \<Rightarrow> string" where
  \<comment> \<open>\<open>s.strip()\<close>\<close>
  "str_strip s = rev (dropWhile isspace (rev (dropWhile isspace s)))"

definition strip_char :: "char \<Rightarrow> string \<Rightarrow> string" where
  \<comment> \<open>\<open>s.strip(c)\<close> for a single character \<open>c\<close>\<close>
  "strip_char c s = rev (dropWhile (\<lambda>x. x = c) (rev (dropWhile (\<lambda>x. x = c) s)))"

fun split_on :: "char \<Rightarrow> string \<Rightarrow> string list" where
  \<comment> \<open>\<open>s.split(sep)\<close> for a single character \<open>sep\<close>; empty pieces are kept\<close>
  "split_on sep [] = [[]]"
| "split_on sep (c # cs) =
     (if c = sep then [] # split_on sep cs
      else (case split_on sep cs of [] \<Rightarrow> [[c]] | p # ps \<Rightarrow> (c # p) # ps))"

fun join :: "string \<Rightarrow> string list \<Rightarrow> string" where
  \<comment> \<open>\<open>sep.join(xs)\<close>\<close>
  "join sep [] = []"
| "join sep [x] = x"
| "join sep (x # y # ys) = x @ sep @ join sep (y # ys)"

definition startswith :: "string \<Rightarrow> string \<Rightarrow> bool" where
  "startswith s p = (take (length p) s = p)"

fun contains :: "string \<Rightarrow> string \<Rightarrow> bool" where
  \<comment> \<open>\<open>sub in s\<close>\<close>
  "contains sub [] = (sub = [])"
| "contains sub (c # cs) = (startswith (c # cs) sub \<or> contains sub cs)"

definition lower_char :: "char \<Rightarrow> char" where
  \<comment> \<open>\<open>str.lower\<close> on one code point below 256: A-Z and the accented capitals 192-222
      (without the multiplication sign 215) move up by 32\<close>
  "lower_char c =
     (let n = (of_char c :: nat)
      in if (65 \<le> n \<and> n \<le> 90) \<or> (192 \<le> n \<and> n \<le> 222 \<and> n \<noteq> 215) then char_of (n + 32) else c)"

definition lower :: "string \<Rightarrow> string" where
  "lower s = map lower_char s"

definition digit_char :: "nat \<Rightarrow> char" where
  "digit_char d = char_of (48 + d)"

fun str_nat :: "nat \<Rightarrow> string" where
  "str_nat n = (if n < 10 then [digit_char n] else str_nat (n div 10) @ [digit_char (n mod 10)])"

declare str_nat.simps [simp del]

definition str_int :: "int \<Rightarrow> string" where
  \<comment> \<open>\<open>str(i)\<close>, also what an f-string writes for an integer\<close>
  "str_int i = (if i < 0 then CHR ''-'' # str_nat (nat (- i)) else str_nat (nat i))"

definition quoted :: "string \<Rightarrow> string" where
  \<comment> \<open>the text between two apostrophes, as in \<open>f"'{x}'"\<close>\<close>
  "quoted s = CHR 0x27 # s @ [CHR 0x27]"

definition truthy :: "string option \<Rightarrow> bool" where
  \<comment> \<open>the truth value of an \<open>Optional[str]\<close>: neither \<open>None\<close> nor the empty string\<close>
  "truthy x = (case x of None \<Rightarrow> False | Some s \<Rightarrow> s \<noteq> [])"

subsection \<open>Exceptions\<close>

datatype exn =
    ErrorPerm string    \<comment> \<open>\<open>ftplib.error_perm\<close>, with its text\<close>
  | ValueError string
  | OtherError string   \<comment> \<open>any other subclass of \<open>Exception\<close>\<close>

fun str_exn :: "exn \<Rightarrow> string" where
  \<comment> \<open>\<open>str(e)\<close>\<close>
  "str_exn (ErrorPerm m) = m"
| "str_exn (ValueError m) = m"
| "str_exn (OtherError m) = m"

section \<open>Tool calls as state transformers that may raise\<close>

text \<open>
  A tool call runs on a state made of the lifespan context, the world outside the process
  (the remote servers, the clock) and the messages sent through \<open>ctx.info\<close>,
  \<open>ctx.warning\<close> and \<open>ctx.error\<close>. It ends with a returned value (\<open>Inr\<close>) or with a
  raised exception (\<open>Inl\<close>). Sending a message never raises.
\<close>

record ('c, 'w) state =
  lifespan_context :: 'c
  world :: 'w
  messages :: "(string \<times> string) list"

type_synonym ('s, 'a) io = "'s \<Rightarrow> (exn + 'a) \<times> 's"

definition io_return :: "'a \<Rightarrow> ('s, 'a) io" where
  "io_return x s = (Inr x, s)"

definition io_raise :: "exn \<Rightarrow> ('s, 'a) io" where
  "io_raise e s = (Inl e, s)"

definition io_bind :: "('s, 'a) io \<Rightarrow> ('a \<Rightarrow> ('s, 'b) io) \<Rightarrow> ('s, 'b) io" where
  "io_bind m f s = (case m s of (Inl e, s') \<Rightarrow> (Inl e, s') | (Inr x, s') \<Rightarrow> f x s')"

definition io_try :: "('s, 'a) io \<Rightarrow> (exn \<Rightarrow> ('s, 'a) io) \<Rightarrow> ('s, 'a) io" where
  \<comment> \<open>\<open>try: m  except Exception as e: h e\<close>\<close>
  "io_try m h s = (case m s of (Inl e, s') \<Rightarrow> h e s' | (Inr x, s') \<Rightarrow> (Inr x, s'))"

definition io_try_perm :: "('s, 'a) io \<Rightarrow> (string \<Rightarrow> ('s, 'a) io) \<Rightarrow> ('s, 'a) io" where
  \<comment> \<open>\<open>try: m  except ftplib.error_perm as e: h e\<close>: every other exception passes through\<close>
  "io_try_perm m h s =
     (case m s of (Inl (ErrorPerm t), s') \<Rightarrow> h t s' | (r, s') \<Rightarrow> (r, s'))"

definition call :: "('w \<Rightarrow> 'r \<times> 'w) \<Rightarrow> (('c, 'w) state \<Rightarrow> 'r \<times> ('c, 'w) state)" where
  \<comment> \<open>a call into the world\<close>
  "call f s = (case f (world s) of (r, w') \<Rightarrow> (r, s\<lparr>world := w'\<rparr>))"

definition get_context :: "(('c, 'w) state, 'c) io" where
  "get_context s = (Inr (lifespan_context s), s)"

definition modify_context :: "('c \<Rightarrow> 'c) \<Rightarrow> (('c, 'w) state, unit) io" where
  "modify_context f s = (Inr (), s\<lparr>lifespan_context := f (lifespan_context s)\<rparr>)"

definition ctx_message :: "string \<Rightarrow> string \<Rightarrow> (('c, 'w) state, unit) io" where
  "ctx_message level text s = (Inr (), s\<lparr>messages := messages s @ [(level, text)]\<rparr>)"

definition ctx_info :: "string \<Rightarrow> (('c, 'w) state, unit) io" where
  "ctx_info = ctx_message ''info''"

definition ctx_warning :: "string \<Rightarrow> (('c, 'w) state, unit) io" where
  "ctx_warning = ctx_message ''warning''"

definition ctx_error :: "string \<Rightarrow> (('c, 'w) state, unit) io" where
  "ctx_error = ctx_message ''error''"

section \<open>The FTP server: \<open>ftp_server.py\<close>\<close>

subsection \<open>The connection registry\<close>

text \<open>
  \<open>FTPContext.connections\<close> is a Python dict: its keys are distinct and keep their order
  of insertion. It is an association list, written with \<open>AList.update\<close> (a new key goes to
  the end, an old key keeps its place) and \<open>AList.delete\<close>. A value of type \<open>'h\<close> stands
  for an \<open>ftplib.FTP\<close> object.
\<close>

record 'h FTPContext =
  connections :: "(string \<times> 'h) list"
  current_connection :: "string option"

definition ftp_lifespan :: "'h FTPContext" where
  \<comment> \<open>the context that \<open>ftp_lifespan\<close> yields at startup\<close>
  "ftp_lifespan = \<lparr>connections = [], current_connection = None\<rparr>"

text \<open>
  The library that the tools call: the methods of \<open>ftplib.FTP\<close> and a few builtins.
  Each method reads and changes the world and, unless it cannot fail in \<open>ftplib\<close>, may
  raise. \<open>FTP_mlsd\<close> gives the whole sequence of \<open>(name, facts)\<close> pairs or raises:
  \<open>ftplib\<close> reads every line of the reply before it yields the first pair.
  \<open>FTP_retrbinary\<close> gives the bytes that the callback has written when the transfer
  ends. The clock is part of the world.
\<close>

type_synonym bytes = "char list"

record ('h, 'w) pylib =
  FTP_new :: "'w \<Rightarrow> 'h \<times> 'w"
  FTP_connect :: "'h \<Rightarrow> string \<Rightarrow> int \<Rightarrow> int \<Rightarrow> 'w \<Rightarrow> (exn + unit) \<times> 'w"
  FTP_set_pasv :: "'h \<Rightarrow> bool \<Rightarrow> 'w \<Rightarrow> (exn + unit) \<times> 'w"
  FTP_login :: "'h \<Rightarrow> string \<Rightarrow> string \<Rightarrow> 'w \<Rightarrow> (exn + unit) \<times> 'w"
  FTP_getwelcome :: "'h \<Rightarrow> 'w \<Rightarrow> string"
  FTP_quit :: "'h \<Rightarrow> 'w \<Rightarrow> (exn + unit) \<times> 'w"
  FTP_close :: "'h \<Rightarrow> 'w \<Rightarrow> (exn + unit) \<times> 'w"
  FTP_voidcmd :: "'h \<Rightarrow> string \<Rightarrow> 'w \<Rightarrow> (exn + string) \<times> 'w"
  FTP_pwd :: "'h \<Rightarrow> 'w \<Rightarrow> (exn + string) \<times> 'w"
  FTP_cwd :: "'h \<Rightarrow> string \<Rightarrow> 'w \<Rightarrow> (exn + unit) \<times> 'w"
  FTP_mlsd :: "'h \<Rightarrow> 'w \<Rightarrow> (exn + (string \<times> (string \<times> string) list) list) \<times> 'w"
  FTP_retrlines :: "'h \<Rightarrow> string \<Rightarrow> 'w \<Rightarrow> (exn + string list) \<times> 'w"
  FTP_nlst :: "'h \<Rightarrow> 'w \<Rightarrow> (exn + string list) \<times> 'w"
  FTP_mkd :: "'h \<Rightarrow> string \<Rightarrow> 'w \<Rightarrow> (exn + string) \<times> 'w"
  FTP_size :: "'h \<Rightarrow> string \<Rightarrow> 'w \<Rightarrow> (exn + int option) \<times> 'w"
  FTP_retrbinary :: "'h \<Rightarrow> string \<Rightarrow> 'w \<Rightarrow> (exn + bytes) \<times> 'w"
  int_of_str :: "string \<Rightarrow> string + int"
    \<comment> \<open>\<open>int(s)\<close>: the integer, or the text of the \<open>ValueError\<close>\<close>
  reformat_modify :: "string \<Rightarrow> string option"
    \<comment> \<open>\<open>strptime(s, '%Y%m%d%H%M%S')\<close> then \<open>strftime('%Y-%m-%d %H:%M:%S')\<close>;
        \<open>None\<close> for the \<open>ValueError\<close>\<close>
  now_year :: "'w \<Rightarrow> int"
    \<comment> \<open>\<open>datetime.now().year\<close>\<close>
  b64encode :: "bytes \<Rightarrow> string"
  bytes_decode :: "bytes \<Rightarrow> string \<Rightarrow> exn + string"

type_synonym ('h, 'w) ftp_state = "('h FTPContext, 'w) state"

definition ftp_connect ::
  "('h, 'w) pylib \<Rightarrow> string \<Rightarrow> string \<Rightarrow> string \<Rightarrow> string \<Rightarrow> int \<Rightarrow> bool \<Rightarrow> int \<Rightarrow>
     (('h, 'w) ftp_state, string) io" where
  "ftp_connect lib connection_id host username password port passive timeout =
     io_try
       (io_bind (ctx_info (''Connecting to FTP server '' @ host @ '':'' @ str_int port)) (\<lambda>_.
        io_bind (call (\<lambda>w. case FTP_new lib w of (h, w') \<Rightarrow> (Inr h, w'))) (\<lambda>ftp.
        io_bind (call (FTP_connect lib ftp host port timeout)) (\<lambda>_.
        io_bind (call (FTP_set_pasv lib ftp passive)) (\<lambda>_.
        io_bind (ctx_info (''Logging in as '' @ username)) (\<lambda>_.
        io_bind (call (FTP_login lib ftp username password)) (\<lambda>_.
        io_bind (modify_context (\<lambda>c. c\<lparr>connections := AList.update connection_id ftp (connections c)\<rparr>)) (\<lambda>_.
        io_bind (modify_context (\<lambda>c. c\<lparr>current_connection := Some connection_id\<rparr>)) (\<lambda>_.
        io_bind (call (\<lambda>w. (Inr (FTP_getwelcome lib ftp w), w))) (\<lambda>welcome.
        io_bind (ctx_info (''Successfully connected to '' @ host)) (\<lambda>_.
        io_return (''Connected to '' @ host @ '':'' @ str_int port @ '' as '' @ username
                     @ ''. Welcome message: '' @ welcome))))))))))))
       (\<lambda>e. case e of
          ErrorPerm t \<Rightarrow>
            io_bind (ctx_error (''Authentication failed: '' @ t)) (\<lambda>_.
            io_return (''Authentication failed: '' @ t))
        | _ \<Rightarrow>
            io_bind (ctx_error (''Connection failed: '' @ str_exn e)) (\<lambda>_.
            io_return (''Connection failed: '' @ str_exn e)))"

definition ftp_disconnect ::
  "('h, 'w) pylib \<Rightarrow> string option \<Rightarrow> (('h, 'w) ftp_state, string) io" where
  "ftp_disconnect lib connection_id =
     io_try
       (io_bind get_context (\<lambda>c0.
        let connection_id =
              (case connection_id of None \<Rightarrow> current_connection c0 | Some k \<Rightarrow> Some k)
        in case connection_id of
             None \<Rightarrow> io_return ''No active connection to disconnect''
           | Some k \<Rightarrow>
               if k = [] then io_return ''No active connection to disconnect''
               else
                 (case map_of (connections c0) k of
                    None \<Rightarrow> io_return (''Connection '' @ quoted k @ '' not found'')
                  | Some ftp \<Rightarrow>
                      io_bind (io_try (call (FTP_quit lib ftp)) (\<lambda>_. call (FTP_close lib ftp))) (\<lambda>_.
                      io_bind (modify_context (\<lambda>c. c\<lparr>connections := AList.delete k (connections c)\<rparr>)) (\<lambda>_.
                      io_bind (modify_context (\<lambda>c.
                                 if current_connection c = Some k
                                 then (let remaining_connections = map fst (connections c)
                                       in c\<lparr>current_connection :=
                                             (case remaining_connections of
                                                [] \<Rightarrow> None | r # _ \<Rightarrow> Some r)\<rparr>)
                                 else c)) (\<lambda>_.
                      io_bind (ctx_info (''Disconnected from '' @ k)) (\<lambda>_.
                      io_return (''Successfully disconnected from '' @ k))))))))
       (\<lambda>e. io_bind (ctx_error (''Error disconnecting: '' @ str_exn e)) (\<lambda>_.
             io_return (''Error disconnecting: '' @ str_exn e)))"

definition ftp_switch_connection ::
  "('h, 'w) pylib \<Rightarrow> string \<Rightarrow> (('h, 'w) ftp_state, string) io" where
  "ftp_switch_connection lib connection_id =
     io_bind get_context (\<lambda>c0.
       case map_of (connections c0) connection_id of
         None \<Rightarrow> io_return (''Connection '' @ quoted connection_id @ '' not found'')
       | Some ftp \<Rightarrow>
           io_try
             (io_bind (call (FTP_voidcmd lib ftp ''NOOP'')) (\<lambda>_.
              io_bind (modify_context (\<lambda>c. c\<lparr>current_connection := Some connection_id\<rparr>)) (\<lambda>_.
              io_return (''Switched to connection '' @ quoted connection_id))))
             (\<lambda>e. io_return (''Connection '' @ quoted connection_id
                               @ '' is no longer active: '' @ str_exn e)))"

definition get_current_ftp :: "(('h, 'w) ftp_state, 'h) io" where
  \<comment> \<open>\<open>_get_current_ftp\<close>\<close>
  "get_current_ftp =
     io_bind get_context (\<lambda>c.
       let current_id = current_connection c
       in if \<not> truthy current_id
          then io_raise (ValueError ''No active FTP connection. Use ftp_connect first.'')
          else (case current_id of
                  None \<Rightarrow> io_raise (ValueError ''No active FTP connection. Use ftp_connect first.'')
                | Some k \<Rightarrow>
                    (case map_of (connections c) k of
                       None \<Rightarrow> io_raise (ValueError (''Connection '' @ quoted k @ '' not found''))
                     | Some ftp \<Rightarrow> io_return ftp)))"

text \<open>A sequence of registry operations, each with its arguments.\<close>

datatype registry_op =
    Connect string string string string int bool int
  | Disconnect "string option"
  | SwitchConnection string

fun run_op :: "('h, 'w) pylib \<Rightarrow> registry_op \<Rightarrow> ('h, 'w) ftp_state \<Rightarrow> ('h, 'w) ftp_state" where
  "run_op lib (Connect connection_id host username password port passive timeout) s =
     snd (ftp_connect lib connection_id host username password port passive timeout s)"
| "run_op lib (Disconnect connection_id) s = snd (ftp_disconnect lib connection_id s)"
| "run_op lib (SwitchConnection connection_id) s = snd (ftp_switch_connection lib connection_id s)"

definition run_ops ::
  "('h, 'w) pylib \<Rightarrow> registry_op list \<Rightarrow> ('h, 'w) ftp_state \<Rightarrow> ('h, 'w) ftp_state" where
  "run_ops lib ops s = foldl (\<lambda>s op. run_op lib op s) s ops"

definition registry_invariant :: "'h FTPContext \<Rightarrow> bool" where
  "registry_invariant c =
     (case current_connection c of
        None \<Rightarrow> True
      | Some k \<Rightarrow> k \<in> set (map fst (connections c)))"


subsection \<open>Directory listing\<close>

record FTPFileInfo =
  name :: string
  type' :: string                 \<comment> \<open>\<open>'file'\<close> or \<open>'directory'\<close>\<close>
  size' :: "int option"
  modified :: "string option"
  permissions :: "string option"

record FTPDirectoryListing =
  current_directory :: string
  files :: "FTPFileInfo list"
  total_files :: int
  total_directories :: int

text \<open>
  The three loops of \<open>ftp_list_directory\<close> carry \<open>files\<close>, \<open>total_files\<close> and
  \<open>total_directories\<close>, written \<open>fs\<close>, \<open>nf\<close> and \<open>nd\<close> here; the loop variable
  \<open>name\<close> is written \<open>nm\<close>. The first loop runs over the pairs of \<open>ftp.mlsd()\<close>;
  \<open>int(size)\<close> may raise there.
\<close>

fun mlsd_loop ::
  "('h, 'w) pylib \<Rightarrow> (string \<times> (string \<times> string) list) list \<Rightarrow>
     FTPFileInfo list \<times> int \<times> int \<Rightarrow> exn + FTPFileInfo list \<times> int \<times> int" where
  "mlsd_loop lib [] acc = Inr acc"
| "mlsd_loop lib ((nm, facts) # rest) (fs, nf, nd) =
     (if nm \<in> set [''.'', ''..''] then mlsd_loop lib rest (fs, nf, nd)
      else
        let file_type = (case map_of facts ''type'' of None \<Rightarrow> ''file'' | Some t \<Rightarrow> t);
            size = map_of facts ''size'';
            mtime = map_of facts ''modify'';
            mtime =
              (case mtime of
                 None \<Rightarrow> None
               | Some m \<Rightarrow>
                   if m = [] then Some m
                   else (case reformat_modify lib m of None \<Rightarrow> Some m | Some m' \<Rightarrow> Some m'))
        in case (case size of
                   None \<Rightarrow> Inr None
                 | Some sz \<Rightarrow>
                     if sz = [] then Inr None
                     else (case int_of_str lib sz of
                             Inl msg \<Rightarrow> Inl (ValueError msg) | Inr i \<Rightarrow> Inr (Some i))) of
             Inl e \<Rightarrow> Inl e
           | Inr size_value \<Rightarrow>
               let file_info =
                     \<lparr>name = nm,
                      type' = (if file_type = ''dir'' then ''directory'' else ''file''),
                      size' = size_value,
                      modified = mtime,
                      permissions = map_of facts ''perm''\<rparr>
               in mlsd_loop lib rest
                    (fs @ [file_info],
                     (if file_type = ''dir'' then nf else nf + 1),
                     (if file_type = ''dir'' then nd + 1 else nd)))"

text \<open>The second loop parses the lines of the \<open>LIST\<close> reply; \<open>year\<close> is the current year.\<close>

fun list_loop ::
  "('h, 'w) pylib \<Rightarrow> int \<Rightarrow> string list \<Rightarrow> FTPFileInfo list \<times> int \<times> int \<Rightarrow>
     FTPFileInfo list \<times> int \<times> int" where
  "list_loop lib year [] acc = acc"
| "list_loop lib year (line # rest) (fs, nf, nd) =
     (if str_strip line = [] then list_loop lib year rest (fs, nf, nd)
      else
        let parts = str_split line
        in if length parts \<ge> 9 then
             (let perms = parts ! 0;
                  size_str = parts ! 4;
                  nm = join '' '' (drop 8 parts)
              in if nm \<in> set [''.'', ''..'']
                 then list_loop lib year rest (fs, nf, nd)
                 else
                   let file_type = (if startswith perms ''d'' then ''directory'' else ''file'');
                       size = (if file_type = ''file''
                               then (case int_of_str lib size_str of Inl _ \<Rightarrow> None | Inr i \<Rightarrow> Some i)
                               else None);
                       month = parts ! 5;
                       day = parts ! 6;
                       year_or_time = parts ! 7;
                       mtime =
                         (if contains '':'' year_or_time
                          then str_int year @ ''-'' @ month @ ''-'' @ day @ '' '' @ year_or_time
                          else year_or_time @ ''-'' @ month @ ''-'' @ day);
                       file_info =
                         \<lparr>name = nm, type' = file_type, size' = size,
                          modified = Some mtime, permissions = Some perms\<rparr>
                   in list_loop lib year rest
                        (fs @ [file_info],
                         (if file_type = ''directory'' then nf else nf + 1),
                         (if file_type = ''directory'' then nd + 1 else nd)))
           else list_loop lib year rest (fs, nf, nd))"

text \<open>
  The third loop runs over the names of \<open>ftp.nlst()\<close> and finds out whether each one is a
  directory by changing into it and back.
\<close>

fun nlst_loop ::
  "('h, 'w) pylib \<Rightarrow> 'h \<Rightarrow> string list \<Rightarrow> FTPFileInfo list \<times> int \<times> int \<Rightarrow>
     (('h, 'w) ftp_state, FTPFileInfo list \<times> int \<times> int) io" where
  "nlst_loop lib ftp [] acc = io_return acc"
| "nlst_loop lib ftp (nm # rest) (fs, nf, nd) =
     (if nm \<in> set [''.'', ''..'']
      then nlst_loop lib ftp rest (fs, nf, nd)
      else
        io_bind
          (io_try_perm
             (io_bind (call (FTP_pwd lib ftp)) (\<lambda>original_pwd.
              io_bind (call (FTP_cwd lib ftp nm)) (\<lambda>_.
              io_bind (call (FTP_cwd lib ftp original_pwd)) (\<lambda>_.
              io_return (''directory'', nf, nd + 1)))))
             (\<lambda>_. io_return (''file'', nf + 1, nd)))
          (\<lambda>(file_type, nf, nd).
             nlst_loop lib ftp rest
               (fs @ [\<lparr>name = nm, type' = file_type, size' = None,
                        modified = None, permissions = None\<rparr>],
                nf, nd)))"

definition sort_files :: "FTPFileInfo list \<Rightarrow> FTPFileInfo list" where
  \<comment> \<open>\<open>sorted(files, key=lambda x: (x.type == 'file', x.name.lower()))\<close>, a stable sort\<close>
  "sort_files fs = sort_key (\<lambda>x. (type' x = ''file'', lower (name x))) fs"

definition when_directory ::
  "string option \<Rightarrow> (string \<Rightarrow> ('s, unit) io) \<Rightarrow> ('s, unit) io" where
  \<comment> \<open>\<open>if directory: f(directory)\<close>\<close>
  "when_directory directory f =
     (case directory of None \<Rightarrow> io_return () | Some d \<Rightarrow> if d = [] then io_return () else f d)"

definition detailed_listing ::
  "('h, 'w) pylib \<Rightarrow> 'h \<Rightarrow> (('h, 'w) ftp_state, FTPFileInfo list \<times> int \<times> int) io" where
  "detailed_listing lib ftp =
     io_try_perm
       (io_bind (call (FTP_mlsd lib ftp)) (\<lambda>entries.
        case mlsd_loop lib entries ([], 0, 0) of
          Inl e \<Rightarrow> io_raise e
        | Inr acc \<Rightarrow> io_return acc))
       (\<lambda>_.
        io_bind (ctx_warning ''MLSD not supported, using LIST command'') (\<lambda>_.
        io_bind (call (FTP_retrlines lib ftp ''LIST'')) (\<lambda>listing.
        (\<lambda>s. io_return (list_loop lib (now_year lib (world s)) listing ([], 0, 0)) s))))"

definition ftp_list_directory ::
  "('h, 'w) pylib \<Rightarrow> string option \<Rightarrow> bool \<Rightarrow> (('h, 'w) ftp_state, FTPDirectoryListing) io" where
  "ftp_list_directory lib directory detailed =
     io_try
       (io_bind get_current_ftp (\<lambda>ftp.
        io_bind (call (FTP_pwd lib ftp)) (\<lambda>original_dir.
        io_bind (when_directory directory (\<lambda>d. call (FTP_cwd lib ftp d))) (\<lambda>_.
        io_bind (call (FTP_pwd lib ftp)) (\<lambda>current_dir.
        io_bind (if detailed then detailed_listing lib ftp
                 else io_bind (call (FTP_nlst lib ftp)) (\<lambda>names.
                      nlst_loop lib ftp names ([], 0, 0)))
          (\<lambda>(files, total_files, total_directories).
        io_bind (when_directory directory (\<lambda>_. call (FTP_cwd lib ftp original_dir))) (\<lambda>_.
        io_return
          \<lparr>current_directory = current_dir,
           files = sort_files files,
           total_files = total_files,
           total_directories = total_directories\<rparr>)))))))
       (\<lambda>e. io_bind (ctx_error (''Error listing directory: '' @ str_exn e)) (\<lambda>_.
             io_raise e))"

subsection \<open>The legacy listing, in the words of the specification\<close>

text \<open>
  The entry that the tokens of one \<open>LIST\<close> line describe: token 0 is the permission string
  and its first character tells a directory from a file, token 4 is the size of a file,
  tokens 5 to 7 are the date, and the tokens from 8 on are the name. The lines that give
  an entry are those with at least 9 tokens whose name is neither \<open>.\<close> nor \<open>..\<close>. These
  follow the words of the specification and are compared with \<open>list_loop\<close> below.
\<close>

definition legacy_entry :: "('h, 'w) pylib \<Rightarrow> int \<Rightarrow> string list \<Rightarrow> FTPFileInfo" where
  "legacy_entry lib year tokens =
     (let is_directory = (tokens ! 0 \<noteq> [] \<and> hd (tokens ! 0) = CHR ''d'')
      in \<lparr>name = join '' '' (drop 8 tokens),
          type' = (if is_directory then ''directory'' else ''file''),
          size' = (if is_directory then None
                   else (case int_of_str lib (tokens ! 4) of Inl _ \<Rightarrow> None | Inr i \<Rightarrow> Some i)),
          modified =
            Some (if CHR '':'' \<in> set (tokens ! 7)
                  then str_int year @ ''-'' @ tokens ! 5 @ ''-'' @ tokens ! 6 @ '' '' @ tokens ! 7
                  else tokens ! 7 @ ''-'' @ tokens ! 5 @ ''-'' @ tokens ! 6),
          permissions = Some (tokens ! 0)\<rparr>)"

definition legacy_tokens :: "string list \<Rightarrow> string list list" where
  "legacy_tokens listing =
     filter (\<lambda>tokens. 9 \<le> length tokens \<and> join '' '' (drop 8 tokens) \<notin> {''.'', ''..''})
       (map str_split listing)"

subsection \<open>Download to memory\<close>

datatype pyval = PyStr string | PyInt int | PyBool bool

definition ftp_download_content ::
  "('h, 'w) pylib \<Rightarrow> string \<Rightarrow> bool \<Rightarrow> string \<Rightarrow> int \<Rightarrow>
     (('h, 'w) ftp_state, (string \<times> pyval) list) io" where
  "ftp_download_content lib remote_path binary_mode encoding max_size_mb =
     io_try
       (io_bind get_current_ftp (\<lambda>ftp.
        io_bind
          (io_try_perm
             (io_bind (call (FTP_size lib ftp remote_path)) (\<lambda>size.
              case size of
                None \<Rightarrow> io_return None
              | Some sz \<Rightarrow>
                  if sz \<noteq> 0 \<and> sz > max_size_mb * 1024 * 1024
                  then io_return
                         (Some [(''error'', PyStr (''File too large ('' @ str_int sz
                                   @ '' bytes). Maximum allowed: '' @ str_int max_size_mb @ ''MB'')),
                                (''size'', PyInt sz)])
                  else io_return None))
             (\<lambda>_. io_return None))
          (\<lambda>too_large.
        case too_large of
          Some result \<Rightarrow> io_return result
        | None \<Rightarrow>
            io_bind (ctx_info (''Downloading content from '' @ remote_path)) (\<lambda>_.
            io_bind (call (FTP_retrbinary lib ftp (''RETR '' @ remote_path))) (\<lambda>content_bytes.
            io_bind (if binary_mode then io_return (b64encode lib content_bytes)
                     else (case bytes_decode lib content_bytes encoding of
                             Inl e \<Rightarrow> io_raise e | Inr text \<Rightarrow> io_return text)) (\<lambda>content.
            io_return
              [(''content'', PyStr content),
               (''size'', PyInt (int (length content_bytes))),
               (''binary_mode'', PyBool binary_mode),
               (''encoding'', PyStr (if \<not> binary_mode then encoding else ''base64''))]))))))
       (\<lambda>e. io_bind (ctx_error (''Error downloading content: '' @ str_exn e)) (\<lambda>_.
             io_return [(''error'', PyStr (str_exn e))]))"

subsection \<open>Directory trees\<close>

fun mkd_loop ::
  "('h, 'w) pylib \<Rightarrow> 'h \<Rightarrow> string list \<Rightarrow> string \<Rightarrow> string list \<Rightarrow>
     (('h, 'w) ftp_state, string list) io" where
  "mkd_loop lib ftp [] current_path created_dirs = io_return created_dirs"
| "mkd_loop lib ftp (part # rest) current_path created_dirs =
     (if part = [] then mkd_loop lib ftp rest current_path created_dirs
      else
        let current_path = (if current_path \<noteq> [] then current_path @ ''/'' @ part else part)
        in io_bind
             (io_try_perm
                (io_bind (call (FTP_mkd lib ftp current_path)) (\<lambda>_.
                 io_bind (ctx_info (''Created directory: '' @ current_path)) (\<lambda>_.
                 io_return (created_dirs @ [current_path]))))
                (\<lambda>t. if contains ''exists'' (lower t) then io_return created_dirs
                      else io_raise (ErrorPerm t)))
             (\<lambda>created_dirs. mkd_loop lib ftp rest current_path created_dirs))"

definition ftp_create_directory_tree ::
  "('h, 'w) pylib \<Rightarrow> string \<Rightarrow> (('h, 'w) ftp_state, string) io" where
  "ftp_create_directory_tree lib directory_path =
     io_try
       (io_bind get_current_ftp (\<lambda>ftp.
        let parts = split_on CHR ''/'' (strip_char CHR ''/'' directory_path)
        in io_bind (mkd_loop lib ftp parts [] []) (\<lambda>created_dirs.
           if created_dirs \<noteq> []
           then io_return (''Successfully created directories: '' @ join '', '' created_dirs)
           else io_return (''Directory path already exists: '' @ directory_path))))
       (\<lambda>e. io_bind (ctx_error (''Error creating directory tree: '' @ str_exn e)) (\<lambda>_.
             io_return (''Error creating directory tree: '' @ str_exn e)))"


subsection \<open>Directory trees, in the words of the specification\<close>

text \<open>
  The segments of a path, their cumulative prefixes, and the creation of a list of paths
  one after the other: a path that is created is recorded, an \<open>error_perm\<close> whose
  lower-cased text contains \<open>exists\<close> is passed over, any other error ends the run. These
  follow the words of the specification and are compared with \<open>mkd_loop\<close> below.
\<close>

definition path_segments :: "string \<Rightarrow> string list" where
  "path_segments directory_path =
     filter (\<lambda>part. part \<noteq> []) (split_on CHR ''/'' (strip_char CHR ''/'' directory_path))"

definition cumulative_prefixes :: "string list \<Rightarrow> string list" where
  "cumulative_prefixes segs = map (\<lambda>n. join ''/'' (take n segs)) [1 ..< Suc (length segs)]"

fun create_prefixes ::
  "('h, 'w) pylib \<Rightarrow> 'h \<Rightarrow> string list \<Rightarrow> 'w \<Rightarrow> string list \<times> exn option \<times> 'w" where
  "create_prefixes lib ftp [] w = ([], None, w)"
| "create_prefixes lib ftp (p # ps) w =
     (case FTP_mkd lib ftp p w of
        (Inr _, w') \<Rightarrow>
          (case create_prefixes lib ftp ps w' of
             (created, fatal, w'') \<Rightarrow> (p # created, fatal, w''))
      | (Inl (ErrorPerm t), w') \<Rightarrow>
          if contains ''exists'' (lower t) then create_prefixes lib ftp ps w'
          else ([], Some (ErrorPerm t), w')
      | (Inl e, w') \<Rightarrow> ([], Some e, w'))"

text \<open>The values that \<open>current_path\<close> takes in \<open>mkd_loop\<close>, for the proofs.\<close>

fun prefixes_from :: "string \<Rightarrow> string list \<Rightarrow> string list" where
  "prefixes_from cur [] = []"
| "prefixes_from cur (part # rest) =
     (if part = [] then prefixes_from cur rest
      else (let c = (if cur \<noteq> [] then cur @ ''/'' @ part else part)
            in c # prefixes_from c rest))"

section \<open>The search server: \<open>tavily_server.py\<close>\<close>

record 'c TavilyContext =
  api_key :: "string option"
  client :: "'c option"

text \<open>
  The keyword arguments of \<open>client.search\<close>: the three optional ones are \<open>None\<close> when the
  key is left out of \<open>search_params\<close>.
\<close>

record search_params =
  sp_query :: string
  sp_search_depth :: string
  sp_topic :: string
  sp_max_results :: int
  sp_include_answer :: bool
  sp_include_raw_content :: bool
  sp_include_images :: bool
  sp_days :: "int option"
  sp_include_domains :: "string list option"
  sp_exclude_domains :: "string list option"

text \<open>
  \<open>client.search\<close> returns the decoded JSON reply of the backend, a dict. Nothing in the
  server checks what is in it: each value can be any JSON value, \<open>null\<close> included, and a
  key can be absent. A float is a real number here.
\<close>

datatype json =
    JNull
  | JBool bool
  | JInt int
  | JFloat real
  | JStr string
  | JList "json list"
  | JDict "(string \<times> json) list"

fun type_name :: "json \<Rightarrow> string" where
  \<comment> \<open>\<open>type(v).__name__\<close>\<close>
  "type_name JNull = ''NoneType''"
| "type_name (JBool b) = ''bool''"
| "type_name (JInt i) = ''int''"
| "type_name (JFloat x) = ''float''"
| "type_name (JStr s) = ''str''"
| "type_name (JList vs) = ''list''"
| "type_name (JDict d) = ''dict''"

definition dict_get :: "(string \<times> json) list \<Rightarrow> string \<Rightarrow> json \<Rightarrow> json" where
  \<comment> \<open>\<open>d.get(key, default)\<close> on a dict: a key that is present with the value \<open>None\<close> gives
      \<open>None\<close>, not the default\<close>
  "dict_get d k dflt = (case map_of d k of None \<Rightarrow> dflt | Some v \<Rightarrow> v)"

definition py_get :: "json \<Rightarrow> string \<Rightarrow> json \<Rightarrow> exn + json" where
  \<comment> \<open>\<open>v.get(key, default)\<close> on any value: only a dict has the method\<close>
  "py_get v k dflt =
     (case v of
        JDict d \<Rightarrow> Inr (dict_get d k dflt)
      | _ \<Rightarrow> Inl (OtherError (quoted (type_name v) @ '' object has no attribute '' @ quoted ''get'')))"

definition py_iter :: "json \<Rightarrow> exn + json list" where
  \<comment> \<open>the values that \<open>for x in v\<close> runs over: the elements of a list, the keys of a dict,
      the characters of a string\<close>
  "py_iter v =
     (case v of
        JList vs \<Rightarrow> Inr vs
      | JDict d \<Rightarrow> Inr (map (\<lambda>kv. JStr (fst kv)) d)
      | JStr s \<Rightarrow> Inr (map (\<lambda>c. JStr [c]) s)
      | _ \<Rightarrow> Inl (OtherError (quoted (type_name v) @ '' object is not iterable'')))"

definition exn_bind :: "exn + 'a \<Rightarrow> ('a \<Rightarrow> exn + 'b) \<Rightarrow> exn + 'b" where
  \<comment> \<open>one statement after the other, without state\<close>
  "exn_bind m f = (case m of Inl e \<Rightarrow> Inl e | Inr x \<Rightarrow> f x)"

text \<open>
  The three result classes are \<open>pydantic\<close> models: making one validates each field against
  its annotation and raises \<open>ValidationError\<close>, a \<open>ValueError\<close>, when a field does not
  fit. A field of type \<open>str\<close> takes a string only, and \<open>Optional[str]\<close> takes \<open>None\<close> as
  well. A field of type \<open>float\<close> takes a float, an int or a bool, and a string that
  \<open>pydantic\<close> can read as a number (\<open>float_of_str\<close>). The text of the error is
  \<open>pydantic\<close>'s own, \<open>validation_error\<close>, from the name of the class and the fields that
  do not fit, with the values given for them.
\<close>

record TavilySearchItem =
  title :: string
  url :: string
  content :: string
  raw_content :: "string option"
  score :: real
  published_date :: "string option"

record TavilyImage =
  image_url :: string
  description :: string

record TavilySearchResult =
  query :: string
  answer :: string
  results :: "TavilySearchItem list"
  images :: "TavilyImage list"
  search_depth :: string
  topic :: string
  response_time :: int    \<comment> \<open>the elapsed time in microseconds, before \<open>total_seconds()\<close>\<close>
  total_results :: int

record ('c, 'w) tavilylib =
  client_search :: "'c \<Rightarrow> search_params \<Rightarrow> 'w \<Rightarrow> (exn + (string \<times> json) list) \<times> 'w"
  datetime_now :: "'w \<Rightarrow> int"
    \<comment> \<open>\<open>datetime.now()\<close>, in microseconds\<close>
  format_seconds :: "int \<Rightarrow> string"
    \<comment> \<open>\<open>f"{t:.2f}"\<close> for a time given in microseconds\<close>
  float_of_str :: "string \<Rightarrow> real option"
    \<comment> \<open>the number that \<open>pydantic\<close> reads in a string, if any\<close>
  validation_error :: "string \<Rightarrow> (string \<times> json) list \<Rightarrow> string"
    \<comment> \<open>\<open>str(e)\<close> for the \<open>ValidationError\<close> of a class on the fields that do not fit\<close>

definition valid_str :: "json \<Rightarrow> string option" where
  "valid_str v = (case v of JStr s \<Rightarrow> Some s | _ \<Rightarrow> None)"

definition valid_optional_str :: "json \<Rightarrow> string option option" where
  "valid_optional_str v = (case v of JNull \<Rightarrow> Some None | JStr s \<Rightarrow> Some (Some s) | _ \<Rightarrow> None)"

definition valid_float :: "('c, 'w) tavilylib \<Rightarrow> json \<Rightarrow> real option" where
  "valid_float lib v =
     (case v of
        JFloat x \<Rightarrow> Some x
      | JInt i \<Rightarrow> Some (of_int i)
      | JBool b \<Rightarrow> Some (if b then 1 else 0)
      | JStr s \<Rightarrow> float_of_str lib s
      | _ \<Rightarrow> None)"

definition invalid_fields :: "(string \<times> json \<times> bool) list \<Rightarrow> (string \<times> json) list" where
  \<comment> \<open>the keyword arguments that do not fit their field, each given with its verdict\<close>
  "invalid_fields args = map (\<lambda>a. (fst a, fst (snd a))) (filter (\<lambda>a. \<not> snd (snd a)) args)"

definition TavilySearchItem_new ::
  "('c, 'w) tavilylib \<Rightarrow> json \<Rightarrow> json \<Rightarrow> json \<Rightarrow> json \<Rightarrow> json \<Rightarrow> json \<Rightarrow>
     exn + TavilySearchItem" where
  "TavilySearchItem_new lib title0 url0 content0 raw_content0 score0 published_date0 =
     (case (valid_str title0, valid_str url0, valid_str content0,
            valid_optional_str raw_content0, valid_float lib score0,
            valid_optional_str published_date0) of
        (Some t, Some u, Some c, Some rc, Some sc, Some pd) \<Rightarrow>
          Inr \<lparr>title = t, url = u, content = c, raw_content = rc, score = sc,
               published_date = pd\<rparr>
      | _ \<Rightarrow>
          Inl (ValueError (validation_error lib ''TavilySearchItem''
                 (invalid_fields
                    [(''title'', title0, valid_str title0 \<noteq> None),
                     (''url'', url0, valid_str url0 \<noteq> None),
                     (''content'', content0, valid_str content0 \<noteq> None),
                     (''raw_content'', raw_content0, valid_optional_str raw_content0 \<noteq> None),
                     (''score'', score0, valid_float lib score0 \<noteq> None),
                     (''published_date'', published_date0,
                      valid_optional_str published_date0 \<noteq> None)]))))"

definition TavilyImage_new :: "('c, 'w) tavilylib \<Rightarrow> json \<Rightarrow> json \<Rightarrow> exn + TavilyImage" where
  "TavilyImage_new lib url0 description0 =
     (case (valid_str url0, valid_str description0) of
        (Some u, Some d) \<Rightarrow> Inr \<lparr>image_url = u, description = d\<rparr>
      | _ \<Rightarrow>
          Inl (ValueError (validation_error lib ''TavilyImage''
                 (invalid_fields
                    [(''url'', url0, valid_str url0 \<noteq> None),
                     (''description'', description0, valid_str description0 \<noteq> None)]))))"

definition TavilySearchResult_new ::
  "('c, 'w) tavilylib \<Rightarrow> string \<Rightarrow> json \<Rightarrow> TavilySearchItem list \<Rightarrow> TavilyImage list \<Rightarrow>
     string \<Rightarrow> string \<Rightarrow> int \<Rightarrow> int \<Rightarrow> exn + TavilySearchResult" where
  \<comment> \<open>only \<open>answer\<close> comes from the reply: the other arguments have the type of their field\<close>
  "TavilySearchResult_new lib query0 answer0 results0 images0 search_depth0 topic0
       response_time0 total_results0 =
     (case valid_str answer0 of
        Some a \<Rightarrow>
          Inr \<lparr>query = query0, answer = a, results = results0, images = images0,
               search_depth = search_depth0, topic = topic0,
               response_time = response_time0, total_results = total_results0\<rparr>
      | None \<Rightarrow>
          Inl (ValueError (validation_error lib ''TavilySearchResult'' [(''answer'', answer0)])))"

type_synonym ('c, 'w) tavily_state = "('c TavilyContext, 'w) state"

definition get_tavily_client :: "(('c, 'w) tavily_state, 'c) io" where
  \<comment> \<open>\<open>_get_tavily_client\<close>\<close>
  "get_tavily_client =
     io_bind get_context (\<lambda>c.
       if \<not> truthy (api_key c)
       then io_raise (ValueError
              ''Tavily API key not found. Please set TAVILY_API_KEY environment variable.'')
       else (case client c of
               None \<Rightarrow> io_raise (ValueError ''Tavily client not initialized'')
             | Some cl \<Rightarrow> io_return cl))"

definition nonempty_list :: "string list option \<Rightarrow> bool" where
  \<comment> \<open>the truth value of an \<open>Optional[List[str]]\<close>\<close>
  "nonempty_list x = (case x of None \<Rightarrow> False | Some xs \<Rightarrow> xs \<noteq> [])"

text \<open>The two loops of \<open>tavily_search\<close> over the reply; the first exception ends them.\<close>

fun parse_results :: "('c, 'w) tavilylib \<Rightarrow> json list \<Rightarrow> exn + TavilySearchItem list" where
  "parse_results lib [] = Inr []"
| "parse_results lib (item # rest) =
     exn_bind (py_get item ''title'' (JStr [])) (\<lambda>title0.
     exn_bind (py_get item ''url'' (JStr [])) (\<lambda>url0.
     exn_bind (py_get item ''content'' (JStr [])) (\<lambda>content0.
     exn_bind (py_get item ''raw_content'' JNull) (\<lambda>raw_content0.
     exn_bind (py_get item ''score'' (JFloat 0)) (\<lambda>score0.
     exn_bind (py_get item ''published_date'' JNull) (\<lambda>published_date0.
     exn_bind (TavilySearchItem_new lib title0 url0 content0 raw_content0 score0 published_date0)
       (\<lambda>result.
     exn_bind (parse_results lib rest) (\<lambda>results0. Inr (result # results0)))))))))"

fun parse_images :: "('c, 'w) tavilylib \<Rightarrow> json list \<Rightarrow> exn + TavilyImage list" where
  "parse_images lib [] = Inr []"
| "parse_images lib (img # rest) =
     exn_bind (py_get img ''url'' (JStr [])) (\<lambda>url0.
     exn_bind (py_get img ''description'' (JStr [])) (\<lambda>description0.
     exn_bind (TavilyImage_new lib url0 description0) (\<lambda>image.
     exn_bind (parse_images lib rest) (\<lambda>images0. Inr (image # images0)))))"

definition parse_reply ::
  "('c, 'w) tavilylib \<Rightarrow> string \<Rightarrow> string \<Rightarrow> string \<Rightarrow> int \<Rightarrow> (string \<times> json) list \<Rightarrow>
     exn + TavilySearchResult" where
  \<comment> \<open>from \<open># Parse results\<close> to the call of \<open>TavilySearchResult\<close>\<close>
  "parse_reply lib query0 search_depth0 topic0 response_time0 data =
     exn_bind (py_iter (dict_get data ''results'' (JList []))) (\<lambda>items.
     exn_bind (parse_results lib items) (\<lambda>results0.
     exn_bind (py_iter (dict_get data ''images'' (JList []))) (\<lambda>imgs.
     exn_bind (parse_images lib imgs) (\<lambda>images0.
     TavilySearchResult_new lib query0 (dict_get data ''answer'' (JStr [])) results0 images0
       search_depth0 topic0 response_time0 (int (length results0))))))"

definition tavily_search ::
  "('c, 'w) tavilylib \<Rightarrow> string \<Rightarrow> string \<Rightarrow> string \<Rightarrow> int option \<Rightarrow> int \<Rightarrow>
     string list option \<Rightarrow> string list option \<Rightarrow> bool \<Rightarrow> bool \<Rightarrow> bool \<Rightarrow>
     (('c, 'w) tavily_state, TavilySearchResult) io" where
  "tavily_search lib query0 search_depth0 topic0 days max_results include_domains exclude_domains
       include_answer include_raw_content include_images =
     io_try
       (io_bind get_tavily_client (\<lambda>cl.
        let search_depth1 = (if search_depth0 \<notin> set [''basic'', ''advanced''] then ''basic''
                             else search_depth0);
            topic1 = (if topic0 \<notin> set [''general'', ''news'', ''finance''] then ''general''
                      else topic0);
            max_results1 = (if max_results < 1 \<or> max_results > 20 then 5 else max_results)
        in io_bind (ctx_info (''Searching Tavily for: '' @ query0)) (\<lambda>_.
           let params =
                 \<lparr>sp_query = query0,
                  sp_search_depth = search_depth1,
                  sp_topic = topic1,
                  sp_max_results = max_results1,
                  sp_include_answer = include_answer,
                  sp_include_raw_content = include_raw_content,
                  sp_include_images = include_images,
                  sp_days = days,
                  sp_include_domains =
                    (if nonempty_list include_domains then include_domains else None),
                  sp_exclude_domains =
                    (if nonempty_list exclude_domains then exclude_domains else None)\<rparr>
           in (\<lambda>s0.
                 (let start_time = datetime_now lib (world s0)
                  in io_bind (call (client_search lib cl params)) (\<lambda>data.
                     (\<lambda>s1.
                        (let elapsed = datetime_now lib (world s1) - start_time
                         in case parse_reply lib query0 search_depth1 topic1 elapsed data of
                              Inl e \<Rightarrow> io_raise e
                            | Inr search_result \<Rightarrow>
                                io_bind (ctx_info (''Found ''
                                           @ str_int (int (length (results search_result)))
                                           @ '' results in '' @ format_seconds lib elapsed @ ''s''))
                                  (\<lambda>_. io_return search_result)) s1))) s0))))
       (\<lambda>e. let error_msg = ''Search failed: '' @ str_exn e
             in io_bind (ctx_error error_msg) (\<lambda>_. io_raise (ValueError error_msg)))"


subsection \<open>The outcomes of the registry operations, for the proofs\<close>

definition failure_text :: "exn \<Rightarrow> string" where
  "failure_text e = (case e of ErrorPerm t \<Rightarrow> ''Authentication failed: '' @ t
                     | _ \<Rightarrow> ''Connection failed: '' @ str_exn e)"

definition after_disconnect :: "string \<Rightarrow> 'h FTPContext \<Rightarrow> 'h FTPContext" where
  "after_disconnect k c =
     \<lparr>connections = AList.delete k (connections c),
      current_connection =
        (if current_connection c = Some k
         then (case map fst (AList.delete k (connections c)) of [] \<Rightarrow> None | r # _ \<Rightarrow> Some r)
         else current_connection c)\<rparr>"

definition disconnect_target :: "string option \<Rightarrow> 'h FTPContext \<Rightarrow> string option" where
  "disconnect_target connection_id c =
     (case connection_id of None \<Rightarrow> current_connection c | Some k \<Rightarrow> Some k)"

section \<open>A small server and a small search backend, to run the tools on\<close>

text \<open>
  One FTP server that accepts the account \<open>alice\<close>/\<open>secret\<close>, and keeps the list of the
  commands it has been sent. Every field of the world can be set to drive a scenario.
\<close>

record demo_world =
  handles :: nat                           \<comment> \<open>the number of \<open>FTP\<close> objects made so far\<close>
  dropped :: "nat list"                    \<comment> \<open>the connections that have gone dead\<close>
  existing :: "string list"                \<comment> \<open>the directories of the server\<close>
  readonly :: "string list"                \<comment> \<open>the paths where \<open>MKD\<close> is refused\<close>
  busy :: "string list"                    \<comment> \<open>the paths where \<open>MKD\<close> gets a 451 reply\<close>
  sizes :: "(string \<times> int) list"           \<comment> \<open>the files and the size that \<open>SIZE\<close> reports\<close>
  mlsd_reply :: "(string \<times> (string \<times> string) list) list option"
                                           \<comment> \<open>\<open>None\<close>: the server has no \<open>MLSD\<close>\<close>
  list_reply :: "string list"
  nlst_reply :: "string list"
  sent :: "string list"                    \<comment> \<open>the commands sent so far\<close>
  clock_year :: int

definition demo_world0 :: demo_world where
  "demo_world0 =
     \<lparr>handles = 0, dropped = [], existing = [''a''], readonly = [''a/b/locked''],
      busy = [''a/b/busy''],
      sizes = [(''big.bin'', 2097152), (''empty.txt'', 0), (''note.txt'', 5)],
      mlsd_reply = None,
      list_reply =
        [''total 12'',
         ''drwxr-xr-x 2 alice staff 4096 Jan 5 10:30 .'',
         ''drwxr-xr-x 2 alice staff 4096 Jan 5 10:30 ..'',
         ''-rw-r--r-- 1 alice staff 120 Mar 9 2021 b notes.txt'',
         ''drwxr-xr-x 2 alice staff 4096 Jan 5 10:30 Sub'',
         ''-rw-r--r-- 1 alice staff 7 Feb 1 08:15 A.txt''],
      nlst_reply = [''.'', ''..'', ''a.txt'', ''sub''],
      sent = [], clock_year = 2025\<rparr>"

text \<open>
  The two builtins of the library, on strings of code points below 256: \<open>int(s)\<close> with the
  text of its \<open>ValueError\<close>, and \<open>datetime.strptime(s, '%Y%m%d%H%M%S')\<close> followed by
  \<open>strftime('%Y-%m-%d %H:%M:%S')\<close>.
\<close>

definition is_digit :: "char \<Rightarrow> bool" where
  "is_digit c = (CHR ''0'' \<le> c \<and> c \<le> CHR ''9'')"

definition digits_val :: "string \<Rightarrow> nat" where
  "digits_val s = foldl (\<lambda>a c. 10 * a + (of_char c - 48)) 0 (filter is_digit s)"

definition hex_digit :: "nat \<Rightarrow> char" where
  "hex_digit d = (if d < 10 then char_of (48 + d) else char_of (87 + d))"

definition repr_char :: "char \<Rightarrow> char \<Rightarrow> string" where
  \<comment> \<open>one character inside \<open>repr(s)\<close>, where \<open>q\<close> is the quote in use\<close>
  "repr_char q c =
     (let n = (of_char c :: nat)
      in if c = q \<or> c = CHR 0x5C then [CHR 0x5C, c]
         else if n = 9 then [CHR 0x5C, CHR ''t'']
         else if n = 10 then [CHR 0x5C, CHR ''n'']
         else if n = 13 then [CHR 0x5C, CHR ''r'']
         else if n < 32 \<or> (127 \<le> n \<and> n \<le> 160) \<or> n = 173
         then [CHR 0x5C, CHR ''x'', hex_digit (n div 16), hex_digit (n mod 16)]
         else [c])"

definition py_repr :: "string \<Rightarrow> string" where
  \<comment> \<open>\<open>repr(s)\<close>: double quotes when the text has an apostrophe and no double quote\<close>
  "py_repr s =
     (let q = (if CHR 0x27 \<in> set s \<and> CHR 0x22 \<notin> set s then CHR 0x22 else CHR 0x27)
      in q # concat (map (repr_char q) s) @ [q])"

definition int_literal :: "string \<Rightarrow> bool" where
  \<comment> \<open>digits, with single underscores between them\<close>
  "int_literal s =
     (s \<noteq> [] \<and> list_all (\<lambda>c. is_digit c \<or> c = CHR ''_'') s \<and> is_digit (hd s) \<and>
      is_digit (last s) \<and> \<not> contains ''__'' s)"

definition demo_int :: "string \<Rightarrow> string + int" where
  "demo_int s =
     (let t = str_strip s;
          negative = (t \<noteq> [] \<and> hd t = CHR ''-'');
          body = (if t \<noteq> [] \<and> (hd t = CHR ''-'' \<or> hd t = CHR ''+'') then tl t else t)
      in if int_literal body
         then Inr (if negative then - int (digits_val body) else int (digits_val body))
         else Inl (''invalid literal for int() with base 10: '' @ py_repr s))"

text \<open>
  A directive of the format is a list of alternatives, tried in order, and an alternative
  is a list of character classes. The first way to match a prefix of the text is taken,
  and it must leave nothing over.
\<close>

definition match_directive :: "string list list \<Rightarrow> string \<Rightarrow> (string \<times> string) list" where
  "match_directive alts s =
     concat (map (\<lambda>alt.
        if length alt \<le> length s \<and> list_all2 (\<lambda>cls c. c \<in> set cls) alt (take (length alt) s)
        then [(take (length alt) s, drop (length alt) s)] else []) alts)"

fun match_directives :: "string list list list \<Rightarrow> string \<Rightarrow> (string list \<times> string) list" where
  "match_directives [] s = [([], s)]"
| "match_directives (d # ds) s =
     concat (map (\<lambda>m. map (\<lambda>r. (fst m # fst r, snd r)) (match_directives ds (snd m)))
               (match_directive d s))"

definition days_in_month :: "nat \<Rightarrow> nat \<Rightarrow> nat" where
  "days_in_month y m =
     (if m = 2 then (if y mod 4 = 0 \<and> (y mod 100 \<noteq> 0 \<or> y mod 400 = 0) then 29 else 28)
      else if m \<in> set [4, 6, 9, 11] then 30 else 31)"

definition pad2 :: "nat \<Rightarrow> string" where
  "pad2 n = (if n < 10 then CHR ''0'' # str_nat n else str_nat n)"

definition demo_reformat :: "string \<Rightarrow> string option" where
  \<comment> \<open>\<open>None\<close> when \<open>strptime\<close> raises \<open>ValueError\<close>; a year below 1000 is written without
      padding, as \<open>strftime\<close> does on Linux\<close>
  "demo_reformat s =
     (let any = ''0123456789''; pos = ''123456789''
      in case match_directives
                [[[any, any, any, any]],
                 [[''1'', ''012''], [''0'', pos], [pos]],
                 [[''3'', ''01''], [''12'', any], [''0'', pos], [pos], ['' '', pos]],
                 [[''2'', ''0123''], [''01'', any], [any]],
                 [[''012345'', any], [any]],
                 [[''6'', ''01''], [''012345'', any], [any]]] s of
           ([y, m, d, h, mi, sec], []) # _ \<Rightarrow>
             if 1 \<le> digits_val y \<and> digits_val d \<le> days_in_month (digits_val y) (digits_val m) \<and>
                digits_val sec \<le> 59
             then Some (str_nat (digits_val y) @ ''-'' @ pad2 (digits_val m) @ ''-''
                        @ pad2 (digits_val d) @ '' '' @ pad2 (digits_val h) @ '':''
                        @ pad2 (digits_val mi) @ '':'' @ pad2 (digits_val sec))
             else None
         | _ \<Rightarrow> None)"

definition demo_lib :: "(nat, demo_world) pylib" where
  "demo_lib =
     \<lparr>FTP_new = (\<lambda>w. (handles w, w\<lparr>handles := handles w + 1\<rparr>)),
      FTP_connect = (\<lambda>h host port timeout w.
        if host = ''down.example'' then (Inl (OtherError ''[Errno 111] Connection refused''), w)
        else (Inr (), w)),
      FTP_set_pasv = (\<lambda>h passive w. (Inr (), w)),
      FTP_login = (\<lambda>h username password w.
        if username = ''alice'' \<and> password = ''secret'' then (Inr (), w)
        else (Inl (ErrorPerm ''530 Login incorrect.''), w)),
      FTP_getwelcome = (\<lambda>h w. ''220 Welcome''),
      FTP_quit = (\<lambda>h w.
        if h \<in> set (dropped w) then (Inl (OtherError ''[Errno 32] Broken pipe''), w)
        else (Inr (), w)),
      FTP_close = (\<lambda>h w. (Inr (), w)),
      FTP_voidcmd = (\<lambda>h cmd w.
        if h \<in> set (dropped w) then (Inl (OtherError ''[Errno 32] Broken pipe''), w)
        else (Inr ''200 OK'', w\<lparr>sent := sent w @ [cmd]\<rparr>)),
      FTP_pwd = (\<lambda>h w. (Inr ''/'', w)),
      FTP_cwd = (\<lambda>h d w.
        if d = ''/'' \<or> d \<in> set (existing w) \<or> d = ''sub'' then (Inr (), w)
        else (Inl (ErrorPerm ''550 Failed to change directory.''), w)),
      FTP_mlsd = (\<lambda>h w.
        case mlsd_reply w of
          None \<Rightarrow> (Inl (ErrorPerm ''500 Unknown command.''), w)
        | Some entries \<Rightarrow> (Inr entries, w)),
      FTP_retrlines = (\<lambda>h cmd w. (Inr (list_reply w), w\<lparr>sent := sent w @ [cmd]\<rparr>)),
      FTP_nlst = (\<lambda>h w. (Inr (nlst_reply w), w)),
      FTP_mkd = (\<lambda>h p w.
        if p \<in> set (existing w)
        then (Inl (ErrorPerm ''550 Create directory operation failed: File exists''), w)
        else if p \<in> set (readonly w) then (Inl (ErrorPerm ''550 Permission denied.''), w)
        else if p \<in> set (busy w)
        then (Inl (OtherError ''451 Requested action aborted: lock file exists''), w)
        else (Inr p, w\<lparr>existing := existing w @ [p], sent := sent w @ [''MKD '' @ p]\<rparr>)),
      FTP_size = (\<lambda>h p w.
        case map_of (sizes w) p of
          None \<Rightarrow> (Inl (ErrorPerm ''550 Could not get file size.''), w)
        | Some n \<Rightarrow> (Inr (Some n), w\<lparr>sent := sent w @ [''SIZE '' @ p]\<rparr>)),
      FTP_retrbinary = (\<lambda>h cmd w.
        case map_of (sizes w) (drop 5 cmd) of
          None \<Rightarrow> (Inl (ErrorPerm ''550 Failed to open file.''), w)
        | Some n \<Rightarrow> (Inr (replicate (nat n) CHR ''x''), w\<lparr>sent := sent w @ [cmd]\<rparr>)),
      int_of_str = demo_int,
      reformat_modify = demo_reformat,
      now_year = clock_year,
      b64encode = (\<lambda>b. ''eHh4eHg=''),
      bytes_decode = (\<lambda>b encoding. Inr b)\<rparr>"

definition demo_state :: "(nat, demo_world) ftp_state" where
  "demo_state = \<lparr>lifespan_context = ftp_lifespan, world = demo_world0, messages = []\<rparr>"

definition demo_connected :: "(nat, demo_world) ftp_state" where
  \<comment> \<open>the state after \<open>ftp_connect\<close> has stored the connections \<open>s1\<close> and \<open>s2\<close>\<close>
  "demo_connected =
     \<lparr>lifespan_context = \<lparr>connections = [(''s1'', 0), (''s2'', 1)], current_connection = Some ''s2''\<rparr>,
      world = demo_world0\<lparr>handles := 2\<rparr>, messages = []\<rparr>"

text \<open>The same state when the server answers \<open>MLSD\<close>.\<close>

definition demo_mlsd :: "(nat, demo_world) ftp_state" where
  "demo_mlsd = demo_connected\<lparr>world := (world demo_connected)\<lparr>mlsd_reply :=
     Some [(''.'', [(''type'', ''cdir'')]),
           (''..'', [(''type'', ''pdir'')]),
           (''z.txt'', [(''type'', ''file''), (''size'', ''3''), (''modify'', ''20240102030405'')]),
           (''Docs'', [(''type'', ''dir''), (''perm'', ''el'')]),
           (''alpha'', [(''type'', ''dir'')])]\<rparr>\<rparr>"

text \<open>
  A search backend that records the parameters of every call and takes 1.5 seconds. It
  sends \<open>null\<close> for the answer when no answer is asked for.
\<close>

record demo_backend =
  calls :: "search_params list"
  clock :: int

definition demo_decimal :: "string \<Rightarrow> real option" where
  \<comment> \<open>the numerals \<open>12\<close> and \<open>12.5\<close>, the only strings that this backend would send as a score\<close>
  "demo_decimal s =
     (let digits = (\<lambda>t. t \<noteq> [] \<and> list_all (\<lambda>c. CHR ''0'' \<le> c \<and> c \<le> CHR ''9'') t);
          val = (\<lambda>t. foldl (\<lambda>a c. 10 * a + (of_char c - 48)) (0 :: nat) t)
      in case split_on CHR ''.'' s of
           [a] \<Rightarrow> if digits a then Some (real (val a)) else None
         | [a, b] \<Rightarrow>
             if digits a \<and> digits b then Some (real (val a) + real (val b) / 10 ^ length b)
             else None
         | _ \<Rightarrow> None)"

definition demo_reply :: "search_params \<Rightarrow> (string \<times> json) list" where
  "demo_reply p =
     [(''query'', JStr (sp_query p)),
      (''answer'', if sp_include_answer p then JStr ''An answer'' else JNull),
      (''images'', JList []),
      (''results'',
         JList [JDict [(''title'', JStr ''T''), (''url'', JStr ''http://t''),
                       (''content'', JStr ''Text''), (''score'', JFloat 0.5),
                       (''raw_content'', JNull)]]),
      (''response_time'', JFloat 1.5)]"

definition demo_tavilylib :: "(unit, demo_backend) tavilylib" where
  "demo_tavilylib =
     \<lparr>client_search = (\<lambda>c p w.
        if sp_query p = [] then (Inl (OtherError ''Query is missing''), w)
        else (Inr (demo_reply p), w\<lparr>calls := calls w @ [p], clock := clock w + 1500000\<rparr>)),
      datetime_now = clock,
      format_seconds = (\<lambda>t. str_int (t div 1000000) @ ''.'' @ str_int (t mod 1000000 div 100000)
                              @ str_int (t mod 100000 div 10000)),
      float_of_str = demo_decimal,
      validation_error = (\<lambda>cls fields.
        \<comment> \<open>the first line of the text\<close>
        str_int (int (length fields))
          @ (if length fields = 1 then '' validation error for '' else '' validation errors for '')
          @ cls)\<rparr>"

definition demo_tavily_state :: "(unit, demo_backend) tavily_state" where
  "demo_tavily_state =
     \<lparr>lifespan_context = \<lparr>api_key = Some ''tvly-key'', client = Some ()\<rparr>,
      world = \<lparr>calls = [], clock = 0\<rparr>, messages = []\<rparr>"

definition demo_tavily_unconfigured :: "(unit, demo_backend) tavily_state" where
  "demo_tavily_unconfigured =
     \<lparr>lifespan_context = \<lparr>api_key = None, client = None\<rparr>,
      world = \<lparr>calls = [], clock = 0\<rparr>, messages = []\<rparr>"

section \<open>Properties\<close>

subsection \<open>Running the registry operations\<close>

lemmas io_defs = io_bind_def io_return_def io_raise_def io_try_def io_try_perm_def call_def
  get_context_def modify_context_def ctx_message_def ctx_info_def ctx_warning_def ctx_error_def



lemma connect_open_fails:
  assumes "FTP_new lib (world s) = (h, w1)"
    and "FTP_connect lib h host port timeout w1 = (Inl e, w2)"
  shows "ftp_connect lib k host u p port pasv timeout s =
     (Inr (failure_text e),
      s\<lparr>world := w2,
        messages := messages s @
          [(''info'', ''Connecting to FTP server '' @ host @ '':'' @ str_int port),
           (''error'', failure_text e)]\<rparr>)"
  using assms
  by (cases e) (simp_all add: ftp_connect_def io_defs failure_text_def)

lemma connect_set_pasv_fails:
  assumes "FTP_new lib (world s) = (h, w1)"
    and "FTP_connect lib h host port timeout w1 = (Inr (), w2)"
    and "FTP_set_pasv lib h pasv w2 = (Inl e, w3)"
  shows "ftp_connect lib k host u p port pasv timeout s =
     (Inr (failure_text e),
      s\<lparr>world := w3,
        messages := messages s @
          [(''info'', ''Connecting to FTP server '' @ host @ '':'' @ str_int port),
           (''error'', failure_text e)]\<rparr>)"
  using assms
  by (cases e) (simp_all add: ftp_connect_def io_defs failure_text_def)
lemma disconnect_no_target:
  assumes "\<not> truthy (disconnect_target connection_id (lifespan_context s))"
  shows "ftp_disconnect lib connection_id s = (Inr ''No active connection to disconnect'', s)"
  using assms
  by (auto simp add: ftp_disconnect_def io_defs disconnect_target_def truthy_def split: option.splits)

lemma disconnect_not_found:
  assumes "disconnect_target connection_id (lifespan_context s) = Some k" and "k \<noteq> []"
    and "map_of (connections (lifespan_context s)) k = None"
  shows "ftp_disconnect lib connection_id s =
           (Inr (''Connection '' @ quoted k @ '' not found''), s)"
  using assms
  by (simp add: ftp_disconnect_def io_defs disconnect_target_def)

lemma disconnect_quit_ok:
  assumes "disconnect_target connection_id (lifespan_context s) = Some k" and "k \<noteq> []"
    and "map_of (connections (lifespan_context s)) k = Some ftp"
    and "FTP_quit lib ftp (world s) = (Inr (), w1)"
  shows "ftp_disconnect lib connection_id s =
           (Inr (''Successfully disconnected from '' @ k),
            s\<lparr>lifespan_context := after_disconnect k (lifespan_context s),
              world := w1,
              messages := messages s @ [(''info'', ''Disconnected from '' @ k)]\<rparr>)"
  using assms
  by (simp add: ftp_disconnect_def io_defs disconnect_target_def after_disconnect_def Let_def)

lemma disconnect_close_ok:
  assumes "disconnect_target connection_id (lifespan_context s) = Some k" and "k \<noteq> []"
    and "map_of (connections (lifespan_context s)) k = Some ftp"
    and "FTP_quit lib ftp (world s) = (Inl e, w1)"
    and "FTP_close lib ftp w1 = (Inr (), w2)"
  shows "ftp_disconnect lib connection_id s =
           (Inr (''Successfully disconnected from '' @ k),
            s\<lparr>lifespan_context := after_disconnect k (lifespan_context s),
              world := w2,
              messages := messages s @ [(''info'', ''Disconnected from '' @ k)]\<rparr>)"
  using assms
  by (simp add: ftp_disconnect_def io_defs disconnect_target_def after_disconnect_def Let_def)

lemma disconnect_close_fails:
  assumes "disconnect_target connection_id (lifespan_context s) = Some k" and "k \<noteq> []"
    and "map_of (connections (lifespan_context s)) k = Some ftp"
    and "FTP_quit lib ftp (world s) = (Inl e, w1)"
    and "FTP_close lib ftp w1 = (Inl e', w2)"
  shows "ftp_disconnect lib connection_id s =
           (Inr (''Error disconnecting: '' @ str_exn e'),
            s\<lparr>world := w2,
              messages := messages s @ [(''error'', ''Error disconnecting: '' @ str_exn e')]\<rparr>)"
  using assms
  by (simp add: ftp_disconnect_def io_defs disconnect_target_def Let_def)

lemma switch_not_found:
  assumes "map_of (connections (lifespan_context s)) k = None"
  shows "ftp_switch_connection lib k s = (Inr (''Connection '' @ quoted k @ '' not found''), s)"
  using assms by (simp add: ftp_switch_connection_def io_defs)

lemma switch_stale:
  assumes "map_of (connections (lifespan_context s)) k = Some ftp"
    and "FTP_voidcmd lib ftp ''NOOP'' (world s) = (Inl e, w1)"
  shows "ftp_switch_connection lib k s =
           (Inr (''Connection '' @ quoted k @ '' is no longer active: '' @ str_exn e),
            s\<lparr>world := w1\<rparr>)"
  using assms by (simp add: ftp_switch_connection_def io_defs)

lemma switch_live:
  assumes "map_of (connections (lifespan_context s)) k = Some ftp"
    and "FTP_voidcmd lib ftp ''NOOP'' (world s) = (Inr r, w1)"
  shows "ftp_switch_connection lib k s =
           (Inr (''Switched to connection '' @ quoted k),
            s\<lparr>lifespan_context := (lifespan_context s)\<lparr>current_connection := Some k\<rparr>,
              world := w1\<rparr>)"
  using assms by (simp add: ftp_switch_connection_def io_defs)

lemma connect_succeeds:
  assumes "FTP_new lib (world s) = (h, w1)"
    and "FTP_connect lib h host port timeout w1 = (Inr (), w2)"
    and "FTP_set_pasv lib h pasv w2 = (Inr (), w3)"
    and "FTP_login lib h u p w3 = (Inr (), w4)"
  shows "ftp_connect lib k host u p port pasv timeout s =
     (Inr (''Connected to '' @ host @ '':'' @ str_int port @ '' as '' @ u
            @ ''. Welcome message: '' @ FTP_getwelcome lib h w4),
      s\<lparr>lifespan_context :=
          \<lparr>connections = AList.update k h (connections (lifespan_context s)),
           current_connection = Some k\<rparr>,
        world := w4,
        messages := messages s @
          [(''info'', ''Connecting to FTP server '' @ host @ '':'' @ str_int port),
           (''info'', ''Logging in as '' @ u),
           (''info'', ''Successfully connected to '' @ host)]\<rparr>)"
  using assms
  by (simp add: ftp_connect_def io_defs)

lemma connect_login_fails:
  assumes "FTP_new lib (world s) = (h, w1)"
    and "FTP_connect lib h host port timeout w1 = (Inr (), w2)"
    and "FTP_set_pasv lib h pasv w2 = (Inr (), w3)"
    and "FTP_login lib h u p w3 = (Inl e, w4)"
  shows "ftp_connect lib k host u p port pasv timeout s =
     (Inr (failure_text e),
      s\<lparr>world := w4,
        messages := messages s @
          [(''info'', ''Connecting to FTP server '' @ host @ '':'' @ str_int port),
           (''info'', ''Logging in as '' @ u),
           (''error'', failure_text e)]\<rparr>)"
  using assms
  by (cases e) (simp_all add: ftp_connect_def io_defs failure_text_def)


lemma connect_context:
  "lifespan_context (snd (ftp_connect lib k host u p port pasv timeout s)) = lifespan_context s \<or>
   (\<exists>h. lifespan_context (snd (ftp_connect lib k host u p port pasv timeout s)) =
      \<lparr>connections = AList.update k h (connections (lifespan_context s)),
       current_connection = Some k\<rparr>)"
proof -
  obtain h w1 where n: "FTP_new lib (world s) = (h, w1)"
    by (cases "FTP_new lib (world s)")
  obtain r2 w2 where c: "FTP_connect lib h host port timeout w1 = (r2, w2)"
    by (cases "FTP_connect lib h host port timeout w1")
  obtain r3 w3 where p: "FTP_set_pasv lib h pasv w2 = (r3, w3)"
    by (cases "FTP_set_pasv lib h pasv w2")
  obtain r4 w4 where l: "FTP_login lib h u p w3 = (r4, w4)"
    by (cases "FTP_login lib h u p w3")
  show ?thesis
  proof (cases r2)
    case (Inl e)
    with connect_open_fails [OF n, of host port timeout e w2] c show ?thesis by simp
  next
    case c_ok: (Inr x2)
    show ?thesis
    proof (cases r3)
      case (Inl e)
      with connect_set_pasv_fails [OF n, of host port timeout w2 pasv e w3] c p c_ok
      show ?thesis by simp
    next
      case p_ok: (Inr x3)
      show ?thesis
      proof (cases r4)
        case (Inl e)
        with connect_login_fails [OF n, of host port timeout w2 pasv w3 u p e w4] c p l c_ok p_ok
        show ?thesis by simp
      next
        case (Inr x4)
        with connect_succeeds [OF n, of host port timeout w2 pasv w3 u p w4 k] c p l c_ok p_ok
        have "lifespan_context (snd (ftp_connect lib k host u p port pasv timeout s)) =
                \<lparr>connections = AList.update k h (connections (lifespan_context s)),
                 current_connection = Some k\<rparr>"
          by simp
        then show ?thesis by blast
      qed
    qed
  qed
qed

lemma disconnect_context:
  "lifespan_context (snd (ftp_disconnect lib connection_id s)) = lifespan_context s \<or>
   (\<exists>k. lifespan_context (snd (ftp_disconnect lib connection_id s)) =
      after_disconnect k (lifespan_context s))"
proof (cases "truthy (disconnect_target connection_id (lifespan_context s))")
  case False
  then show ?thesis by (simp add: disconnect_no_target)
next
  case True
  then obtain k where t: "disconnect_target connection_id (lifespan_context s) = Some k"
    and k: "k \<noteq> []"
    by (auto simp: truthy_def split: option.splits)
  show ?thesis
  proof (cases "map_of (connections (lifespan_context s)) k")
    case None
    then show ?thesis by (simp add: disconnect_not_found [OF t k])
  next
    case (Some ftp)
    obtain r1 w1 where q: "FTP_quit lib ftp (world s) = (r1, w1)"
      by (cases "FTP_quit lib ftp (world s)")
    obtain r2 w2 where c: "FTP_close lib ftp w1 = (r2, w2)"
      by (cases "FTP_close lib ftp w1")
    show ?thesis
    proof (cases r1)
      case (Inr x)
      with disconnect_quit_ok [OF t k Some, of lib w1] q show ?thesis by auto
    next
      case q_bad: (Inl e)
      show ?thesis
      proof (cases r2)
        case (Inr x)
        with disconnect_close_ok [OF t k Some, of lib e w1 w2] q c q_bad show ?thesis by auto
      next
        case (Inl e')
        with disconnect_close_fails [OF t k Some, of lib e w1 e' w2] q c q_bad
        show ?thesis by auto
      qed
    qed
  qed
qed

lemma switch_context:
  "lifespan_context (snd (ftp_switch_connection lib k s)) = lifespan_context s \<or>
   (k \<in> set (map fst (connections (lifespan_context s))) \<and>
    lifespan_context (snd (ftp_switch_connection lib k s)) =
      (lifespan_context s)\<lparr>current_connection := Some k\<rparr>)"
proof (cases "map_of (connections (lifespan_context s)) k")
  case None
  then show ?thesis by (simp add: switch_not_found)
next
  case (Some ftp)
  then have mem: "k \<in> set (map fst (connections (lifespan_context s)))"
    by (auto dest: map_of_SomeD intro: rev_image_eqI)
  obtain r w1 where v: "FTP_voidcmd lib ftp ''NOOP'' (world s) = (r, w1)"
    by (cases "FTP_voidcmd lib ftp ''NOOP'' (world s)")
  show ?thesis
  proof (cases r)
    case (Inl e)
    with switch_stale [OF Some, of lib e w1] v show ?thesis by simp
  next
    case (Inr x)
    with switch_live [OF Some, of lib x w1] v mem show ?thesis by simp
  qed
qed

lemma invariant_after_connect:
  "registry_invariant \<lparr>connections = AList.update k h cs, current_connection = Some k\<rparr>"
  by (simp add: registry_invariant_def AList.update_keys)

lemma invariant_after_disconnect:
  assumes "registry_invariant c"
  shows "registry_invariant (after_disconnect k c)"
proof (cases "current_connection c = Some k")
  case True
  then show ?thesis
    by (cases "map fst (AList.delete k (connections c))")
       (simp_all add: registry_invariant_def after_disconnect_def)
next
  case False
  with assms show ?thesis
    by (auto simp: registry_invariant_def after_disconnect_def AList.delete_keys
             split: option.splits)
qed

lemma invariant_after_switch:
  "k \<in> set (map fst (connections c)) \<Longrightarrow> registry_invariant (c\<lparr>current_connection := Some k\<rparr>)"
  by (simp add: registry_invariant_def)

lemma run_op_invariant:
  assumes "registry_invariant (lifespan_context s)"
  shows "registry_invariant (lifespan_context (run_op lib op s))"
proof (cases op)
  case (Connect k host u p port pasv timeout)
  with connect_context [of lib k host u p port pasv timeout s] assms show ?thesis
    by (auto simp: invariant_after_connect)
next
  case (Disconnect connection_id)
  with disconnect_context [of lib connection_id s] assms show ?thesis
    by (auto simp: invariant_after_disconnect)
next
  case (SwitchConnection k)
  from switch_context [of lib k s] show ?thesis
  proof (elim disjE conjE)
    assume "lifespan_context (snd (ftp_switch_connection lib k s)) = lifespan_context s"
    with assms SwitchConnection show ?thesis by simp
  next
    assume mem: "k \<in> set (map fst (connections (lifespan_context s)))"
      and eq: "lifespan_context (snd (ftp_switch_connection lib k s)) =
                 (lifespan_context s)\<lparr>current_connection := Some k\<rparr>"
    show ?thesis using invariant_after_switch [OF mem] eq SwitchConnection by simp
  qed
qed

lemma run_ops_invariant:
  "registry_invariant (lifespan_context s) \<Longrightarrow>
   registry_invariant (lifespan_context (run_ops lib ops s))"
  unfolding run_ops_def
  by (induction ops arbitrary: s) (simp_all add: run_op_invariant)

lemma demo_simps:
  "FTP_new demo_lib w = (handles w, w\<lparr>handles := handles w + 1\<rparr>)"
  "FTP_connect demo_lib h host port timeout w =
     (if host = ''down.example'' then (Inl (OtherError ''[Errno 111] Connection refused''), w)
        else (Inr (), w))"
  "FTP_set_pasv demo_lib h passive w = (Inr (), w)"
  "FTP_login demo_lib h username password w =
     (if username = ''alice'' \<and> password = ''secret'' then (Inr (), w)
        else (Inl (ErrorPerm ''530 Login incorrect.''), w))"
  by (simp_all add: demo_lib_def)

subsection \<open>The registry invariant\<close>

text \<open>
  Claim C1. From the context that \<open>ftp_lifespan\<close> yields, after every operation of every
  sequence of \<open>ftp_connect\<close>, \<open>ftp_disconnect\<close> and \<open>ftp_switch_connection\<close> calls, whatever
  the servers answer and whether the call succeeds or fails, \<open>current_connection\<close> is
  \<open>None\<close> or a key of \<open>connections\<close>.
\<close>

theorem registry_invariant_after_every_operation:
  assumes "lifespan_context s = ftp_lifespan" and "n \<le> length ops"
  shows "registry_invariant (lifespan_context (run_ops lib (take n ops) s))"
proof -
  have "registry_invariant (lifespan_context s)"
    using assms(1) by (simp add: registry_invariant_def ftp_lifespan_def)
  then show ?thesis by (rule run_ops_invariant)
qed

theorem registry_invariant_witness:
  "lifespan_context demo_state = ftp_lifespan \<and>
   registry_invariant (lifespan_context (run_ops demo_lib
     (take 3 [Connect ''s1'' ''ftp.example'' ''alice'' ''secret'' 21 True 30,
              Connect ''s2'' ''ftp.example'' ''alice'' ''wrong'' 21 True 30,
              Disconnect None,
              SwitchConnection ''s1'']) demo_state))"
  using registry_invariant_after_every_operation
    [of demo_state 3 "[Connect ''s1'' ''ftp.example'' ''alice'' ''secret'' 21 True 30,
              Connect ''s2'' ''ftp.example'' ''alice'' ''wrong'' 21 True 30,
              Disconnect None,
              SwitchConnection ''s1'']" demo_lib]
  by (simp add: demo_state_def)

subsection \<open>A failed connect changes nothing\<close>

text \<open>
  Claim C2. When \<open>ftp.connect\<close> raises, or when it and \<open>set_pasv\<close> succeed and \<open>ftp.login\<close>
  raises, with the exception \<open>e\<close>, then \<open>ftp_connect\<close> returns a text (the
  authentication-failure text for an \<open>error_perm\<close>, the connection-failure text otherwise),
  adds no entry to \<open>connections\<close> and leaves \<open>current_connection\<close> as it was; from the
  initial context both stay empty.
\<close>

theorem connect_atomic_on_failure:
  assumes "FTP_new lib (world s) = (h, w1)"
    and "FTP_connect lib h host port timeout w1 = (r_open, w2)"
    and "FTP_set_pasv lib h passive w2 = (r_pasv, w3)"
    and "FTP_login lib h username password w3 = (r_login, w4)"
    and "r_open = Inl e \<or> (r_open = Inr () \<and> r_pasv = Inr () \<and> r_login = Inl e)"
    and "ftp_connect lib connection_id host username password port passive timeout s = (r, s')"
  shows "r = Inr (case e of ErrorPerm t \<Rightarrow> ''Authentication failed: '' @ t
                  | _ \<Rightarrow> ''Connection failed: '' @ str_exn e) \<and>
         connections (lifespan_context s') = connections (lifespan_context s) \<and>
         current_connection (lifespan_context s') = current_connection (lifespan_context s) \<and>
         (lifespan_context s = ftp_lifespan \<longrightarrow>
            connections (lifespan_context s') = [] \<and>
            current_connection (lifespan_context s') = None)"
proof -
  have "r = Inr (failure_text e) \<and> lifespan_context s' = lifespan_context s"
    using assms(5)
  proof
    assume o: "r_open = Inl e"
    from connect_open_fails [OF assms(1) assms(2) [unfolded o]] assms(6)
    show ?thesis by auto
  next
    assume "r_open = Inr () \<and> r_pasv = Inr () \<and> r_login = Inl e"
    then have o: "r_open = Inr ()" and p: "r_pasv = Inr ()" and l: "r_login = Inl e"
      by simp_all
    from connect_login_fails
      [OF assms(1) assms(2) [unfolded o] assms(3) [unfolded p] assms(4) [unfolded l]] assms(6)
    show ?thesis by auto
  qed
  then show ?thesis by (simp add: failure_text_def ftp_lifespan_def)
qed

theorem connect_atomic_on_failure_witness:
  "fst (ftp_connect demo_lib ''s1'' ''ftp.example'' ''alice'' ''wrong'' 21 True 30 demo_state) =
     Inr ''Authentication failed: 530 Login incorrect.'' \<and>
   connections (lifespan_context
     (snd (ftp_connect demo_lib ''s1'' ''ftp.example'' ''alice'' ''wrong'' 21 True 30 demo_state))) = [] \<and>
   current_connection (lifespan_context
     (snd (ftp_connect demo_lib ''s1'' ''ftp.example'' ''alice'' ''wrong'' 21 True 30 demo_state))) = None"
  using connect_atomic_on_failure
    [of demo_lib demo_state 0 "demo_world0\<lparr>handles := 1\<rparr>"
        "''ftp.example''" 21 30 "Inr ()" "demo_world0\<lparr>handles := 1\<rparr>"
        True "Inr ()" "demo_world0\<lparr>handles := 1\<rparr>"
        "''alice''" "''wrong''" "Inl (ErrorPerm ''530 Login incorrect.'')" "demo_world0\<lparr>handles := 1\<rparr>"
        "ErrorPerm ''530 Login incorrect.''" "''s1''"
        "fst (ftp_connect demo_lib ''s1'' ''ftp.example'' ''alice'' ''wrong'' 21 True 30 demo_state)"
        "snd (ftp_connect demo_lib ''s1'' ''ftp.example'' ''alice'' ''wrong'' 21 True 30 demo_state)"]
  by (simp add: demo_simps demo_state_def demo_world0_def ftp_lifespan_def)

subsection \<open>Switching the current connection\<close>

lemma demo_voidcmd:
  "FTP_voidcmd demo_lib h cmd w =
     (if h \<in> set (dropped w) then (Inl (OtherError ''[Errno 32] Broken pipe''), w)
      else (Inr ''200 OK'', w\<lparr>sent := sent w @ [cmd]\<rparr>))"
  by (simp add: demo_lib_def)

lemma delete_keys_filter:
  "map fst (AList.delete k al) = filter (\<lambda>x. x \<noteq> k) (map fst al)"
  by (induction al) auto

lemma demo_quit_close:
  "FTP_quit demo_lib h w =
     (if h \<in> set (dropped w) then (Inl (OtherError ''[Errno 32] Broken pipe''), w)
      else (Inr (), w))"
  "FTP_close demo_lib h w = (Inr (), w)"
  by (simp_all add: demo_lib_def)

text \<open>
  Claim C8. \<open>ftp_switch_connection\<close> with an id that is not a key of \<open>connections\<close> returns
  the not-found text and changes nothing. With an id that is a key, it sends \<open>NOOP\<close> over the
  stored connection: when that raises, the result is the no-longer-active text and the
  context is unchanged; when it returns, \<open>current_connection\<close> becomes the id.
\<close>

theorem switch_connection_cases:
  assumes "ftp_switch_connection lib connection_id s = (r, s')"
    and "FTP_voidcmd lib ftp ''NOOP'' (world s) = (probe, w1)"
  shows "(connection_id \<notin> set (map fst (connections (lifespan_context s))) \<longrightarrow>
            r = Inr (''Connection '' @ quoted connection_id @ '' not found'') \<and> s' = s) \<and>
         (map_of (connections (lifespan_context s)) connection_id = Some ftp \<longrightarrow>
            (case probe of
               Inl e \<Rightarrow>
                 r = Inr (''Connection '' @ quoted connection_id @ '' is no longer active: ''
                           @ str_exn e) \<and>
                 lifespan_context s' = lifespan_context s
             | Inr reply \<Rightarrow>
                 r = Inr (''Switched to connection '' @ quoted connection_id) \<and>
                 connections (lifespan_context s') = connections (lifespan_context s) \<and>
                 current_connection (lifespan_context s') = Some connection_id))"
proof (intro conjI impI)
  assume "connection_id \<notin> set (map fst (connections (lifespan_context s)))"
  then have "map_of (connections (lifespan_context s)) connection_id = None"
    by (simp add: map_of_eq_None_iff)
  from switch_not_found [OF this] assms(1)
  show "r = Inr (''Connection '' @ quoted connection_id @ '' not found'')" and "s' = s"
    by simp_all
next
  assume found: "map_of (connections (lifespan_context s)) connection_id = Some ftp"
  show "case probe of
          Inl e \<Rightarrow>
            r = Inr (''Connection '' @ quoted connection_id @ '' is no longer active: ''
                      @ str_exn e) \<and>
            lifespan_context s' = lifespan_context s
        | Inr reply \<Rightarrow>
            r = Inr (''Switched to connection '' @ quoted connection_id) \<and>
            connections (lifespan_context s') = connections (lifespan_context s) \<and>
            current_connection (lifespan_context s') = Some connection_id"
  proof (cases probe)
    case (Inl e)
    from switch_stale [OF found assms(2) [unfolded Inl]] assms(1) Inl
    show ?thesis by auto
  next
    case (Inr reply)
    from switch_live [OF found assms(2) [unfolded Inr]] assms(1) Inr
    show ?thesis by auto
  qed
qed

theorem switch_connection_cases_witness:
  "fst (ftp_switch_connection demo_lib ''s1''
          (demo_connected\<lparr>world := (world demo_connected)\<lparr>dropped := [0]\<rparr>\<rparr>)) =
     Inr ''Connection 's1' is no longer active: [Errno 32] Broken pipe'' \<and>
   current_connection (lifespan_context (snd (ftp_switch_connection demo_lib ''s1''
          (demo_connected\<lparr>world := (world demo_connected)\<lparr>dropped := [0]\<rparr>\<rparr>)))) = Some ''s2''"
  using switch_connection_cases
    [of demo_lib "''s1''" "demo_connected\<lparr>world := (world demo_connected)\<lparr>dropped := [0]\<rparr>\<rparr>"
        "fst (ftp_switch_connection demo_lib ''s1''
          (demo_connected\<lparr>world := (world demo_connected)\<lparr>dropped := [0]\<rparr>\<rparr>))"
        "snd (ftp_switch_connection demo_lib ''s1''
          (demo_connected\<lparr>world := (world demo_connected)\<lparr>dropped := [0]\<rparr>\<rparr>))"
        0 "Inl (OtherError ''[Errno 32] Broken pipe'')"
        "(world demo_connected)\<lparr>dropped := [0]\<rparr>"]
  by (simp add: demo_voidcmd demo_connected_def quoted_def)

subsection \<open>The current connection after a disconnect\<close>

text \<open>
  Claim C9. Take a disconnect that goes through: its target \<open>k\<close> (the argument, or the
  current connection when there is no argument) is a non-empty key of \<open>connections\<close> and
  \<open>quit\<close>, or else \<open>close\<close>, returns. The keys that remain are the old keys without
  \<open>k\<close>, in their order of insertion. When \<open>k\<close> was the current connection, the new current
  connection is the first of them, or \<open>None\<close> when none remains; otherwise
  \<open>current_connection\<close> is unchanged.
\<close>

theorem disconnect_promotes_first_remaining:
  assumes "(case connection_id of None \<Rightarrow> current_connection (lifespan_context s)
            | Some given \<Rightarrow> Some given) = Some k"
    and "k \<noteq> []"
    and "map_of (connections (lifespan_context s)) k = Some ftp"
    and "FTP_quit lib ftp (world s) = (r_quit, w1)"
    and "FTP_close lib ftp w1 = (r_close, w2)"
    and "r_quit = Inr () \<or> r_close = Inr ()"
    and "ftp_disconnect lib connection_id s = (r, s')"
  shows "r = Inr (''Successfully disconnected from '' @ k) \<and>
         map fst (connections (lifespan_context s')) =
           filter (\<lambda>x. x \<noteq> k) (map fst (connections (lifespan_context s))) \<and>
         current_connection (lifespan_context s') =
           (if current_connection (lifespan_context s) = Some k
            then (case filter (\<lambda>x. x \<noteq> k) (map fst (connections (lifespan_context s))) of
                    [] \<Rightarrow> None
                  | first_key # _ \<Rightarrow> Some first_key)
            else current_connection (lifespan_context s))"
proof -
  have t: "disconnect_target connection_id (lifespan_context s) = Some k"
    using assms(1) by (simp add: disconnect_target_def)
  have keys: "map fst (AList.delete k (connections (lifespan_context s))) =
                filter (\<lambda>x. x \<noteq> k) (map fst (connections (lifespan_context s)))"
    by (rule delete_keys_filter)
  have "r = Inr (''Successfully disconnected from '' @ k) \<and>
        lifespan_context s' = after_disconnect k (lifespan_context s)"
  proof (cases r_quit)
    case (Inr u)
    from disconnect_quit_ok [OF t assms(2,3), of lib w1] assms(4,7) Inr
    show ?thesis by auto
  next
    case (Inl e)
    with assms(6) have c: "r_close = Inr ()" by simp
    from disconnect_close_ok [OF t assms(2,3) assms(4) [unfolded Inl] assms(5) [unfolded c]]
      assms(7)
    show ?thesis by auto
  qed
  then show ?thesis
    by (simp add: after_disconnect_def keys)
qed

theorem disconnect_promotes_first_remaining_witness:
  "fst (ftp_disconnect demo_lib None demo_connected) = Inr ''Successfully disconnected from s2'' \<and>
   map fst (connections (lifespan_context (snd (ftp_disconnect demo_lib None demo_connected)))) =
     [''s1''] \<and>
   current_connection (lifespan_context (snd (ftp_disconnect demo_lib None demo_connected))) =
     Some ''s1''"
  using disconnect_promotes_first_remaining
    [where connection_id = None and s = demo_connected and k = "''s2''" and ftp = 1
       and lib = demo_lib and r_quit = "Inr ()" and ?w1.0 = "world demo_connected"
       and r_close = "Inr ()" and ?w2.0 = "world demo_connected"
       and r = "fst (ftp_disconnect demo_lib None demo_connected)"
       and s' = "snd (ftp_disconnect demo_lib None demo_connected)"]
  by (simp add: demo_quit_close demo_connected_def demo_world0_def)

subsection \<open>The parameters of a search\<close>

lemma parse_reply_fields:
  assumes "parse_reply lib q d t rt data = Inr res"
  shows "query res = q \<and> search_depth res = d \<and> topic res = t \<and> response_time res = rt \<and>
         total_results res = int (length (results res))"
  using assms
  by (auto simp add: parse_reply_def exn_bind_def TavilySearchResult_new_def
        split: sum.splits option.splits)

lemma tavily_client:
  assumes "truthy (api_key (lifespan_context s))" and "client (lifespan_context s) = Some cl"
  shows "get_tavily_client s = (Inr cl, s)"
  using assms by (simp add: get_tavily_client_def io_defs)

lemma tavily_search_run:
  assumes "get_tavily_client s = (Inr cl, s)"
    and "client_search lib cl
           \<lparr>sp_query = q,
            sp_search_depth = (if depth \<notin> set [''basic'', ''advanced''] then ''basic'' else depth),
            sp_topic = (if tp \<notin> set [''general'', ''news'', ''finance''] then ''general'' else tp),
            sp_max_results = (if n < 1 \<or> n > 20 then 5 else n),
            sp_include_answer = include_answer, sp_include_raw_content = include_raw_content,
            sp_include_images = include_images, sp_days = days,
            sp_include_domains = (if nonempty_list include_domains then include_domains else None),
            sp_exclude_domains = (if nonempty_list exclude_domains then exclude_domains else None)\<rparr>
           (world s) = (reply, w1)"
  shows "tavily_search lib q depth tp days n include_domains exclude_domains
           include_answer include_raw_content include_images s =
     (case (case reply of
              Inl e \<Rightarrow> Inl e
            | Inr data \<Rightarrow>
                parse_reply lib q
                  (if depth \<notin> set [''basic'', ''advanced''] then ''basic'' else depth)
                  (if tp \<notin> set [''general'', ''news'', ''finance''] then ''general'' else tp)
                  (datetime_now lib w1 - datetime_now lib (world s)) data) of
        Inl e \<Rightarrow>
          (Inl (ValueError (''Search failed: '' @ str_exn e)),
           s\<lparr>world := w1,
             messages := messages s @
               [(''info'', ''Searching Tavily for: '' @ q),
                (''error'', ''Search failed: '' @ str_exn e)]\<rparr>)
      | Inr res \<Rightarrow>
          (Inr res,
           s\<lparr>world := w1,
             messages := messages s @
               [(''info'', ''Searching Tavily for: '' @ q),
                (''info'', ''Found '' @ str_int (int (length (results res))) @ '' results in ''
                   @ format_seconds lib (datetime_now lib w1 - datetime_now lib (world s))
                   @ ''s'')]\<rparr>))"
  using assms
  by (simp add: tavily_search_def Let_def io_bind_def io_try_def io_return_def io_raise_def
        call_def ctx_info_def ctx_error_def ctx_message_def split: sum.splits)

lemma demo_client_search:
  "client_search demo_tavilylib c p w =
     (if sp_query p = [] then (Inl (OtherError ''Query is missing''), w)
      else (Inr (demo_reply p), w\<lparr>calls := calls w @ [p], clock := clock w + 1500000\<rparr>))"
  "datetime_now demo_tavilylib w = clock w"
  by (simp_all add: demo_tavilylib_def)

lemma demo_parse_reply:
  "parse_reply demo_tavilylib q d t rt
     (demo_reply \<lparr>sp_query = q', sp_search_depth = d', sp_topic = t', sp_max_results = n,
                  sp_include_answer = True, sp_include_raw_content = irc,
                  sp_include_images = ii, sp_days = days, sp_include_domains = incl,
                  sp_exclude_domains = excl\<rparr>) =
     Inr \<lparr>query = q, answer = ''An answer'',
          results = [\<lparr>title = ''T'', url = ''http://t'', content = ''Text'', raw_content = None,
                      score = 0.5, published_date = None\<rparr>],
          images = [], search_depth = d, topic = t, response_time = rt, total_results = 1\<rparr>"
  "parse_reply demo_tavilylib q d t rt
     (demo_reply \<lparr>sp_query = q', sp_search_depth = d', sp_topic = t', sp_max_results = n,
                  sp_include_answer = False, sp_include_raw_content = irc,
                  sp_include_images = ii, sp_days = days, sp_include_domains = incl,
                  sp_exclude_domains = excl\<rparr>) =
     Inl (ValueError (validation_error demo_tavilylib ''TavilySearchResult'' [(''answer'', JNull)]))"
  by (simp_all add: parse_reply_def demo_reply_def dict_get_def py_iter_def py_get_def exn_bind_def
        TavilySearchItem_new_def TavilySearchResult_new_def valid_str_def valid_optional_str_def
        valid_float_def)

text \<open>
  Claim C10. With an API key and a client, \<open>tavily_search\<close> replaces a \<open>search_depth\<close> other
  than \<open>basic\<close> and \<open>advanced\<close> by \<open>basic\<close>, a \<open>topic\<close> other than \<open>general\<close>, \<open>news\<close> and
  \<open>finance\<close> by \<open>general\<close>, and a \<open>max_results\<close> outside 1..20 by 5. The backend is called
  with the replaced values, and the replacement is silent: the call ends as the call with
  the replaced values ends, in the same state, messages included. When the reply of the
  backend passes the validation of the result classes, the tool returns the result, with
  the replaced \<open>search_depth\<close> and \<open>topic\<close> in it, and the only messages sent are at the
  info level. When the backend raises, or its reply does not pass the validation, the tool
  raises \<open>ValueError\<close> with \<open>Search failed: \<close> and the text of the exception.
\<close>

theorem tavily_search_normalizes_parameters:
  assumes "truthy (api_key (lifespan_context s))"
    and "client (lifespan_context s) = Some cl"
    and "depth' = (if depth = ''basic'' \<or> depth = ''advanced'' then depth else ''basic'')"
    and "topic' = (if tp = ''general'' \<or> tp = ''news'' \<or> tp = ''finance'' then tp else ''general'')"
    and "n' = (if 1 \<le> n \<and> n \<le> 20 then n else 5)"
    and "client_search lib cl
           \<lparr>sp_query = q, sp_search_depth = depth', sp_topic = topic', sp_max_results = n',
            sp_include_answer = include_answer, sp_include_raw_content = include_raw_content,
            sp_include_images = include_images, sp_days = days,
            sp_include_domains = (if nonempty_list include_domains then include_domains else None),
            sp_exclude_domains = (if nonempty_list exclude_domains then exclude_domains else None)\<rparr>
           (world s) = (reply, w1)"
    and "tavily_search lib q depth tp days n include_domains exclude_domains
           include_answer include_raw_content include_images s = (r, s')"
  shows "world s' = w1 \<and>
         tavily_search lib q depth' topic' days n' include_domains exclude_domains
           include_answer include_raw_content include_images s = (r, s') \<and>
         (case reply of
            Inl e \<Rightarrow> r = Inl (ValueError (''Search failed: '' @ str_exn e))
          | Inr data \<Rightarrow>
              (case parse_reply lib q depth' topic'
                      (datetime_now lib w1 - datetime_now lib (world s)) data of
                 Inl e \<Rightarrow> r = Inl (ValueError (''Search failed: '' @ str_exn e))
               | Inr res \<Rightarrow>
                   r = Inr res \<and> search_depth res = depth' \<and> topic res = topic' \<and>
                   query res = q \<and>
                   (\<forall>m \<in> set (drop (length (messages s)) (messages s')). fst m = ''info'')))"
proof -
  have d: "(if depth \<notin> set [''basic'', ''advanced''] then ''basic'' else depth) = depth'"
    using assms(3) by auto
  have t: "(if tp \<notin> set [''general'', ''news'', ''finance''] then ''general'' else tp) = topic'"
    using assms(4) by auto
  have m: "(if n < 1 \<or> n > 20 then 5 else n) = n'"
    using assms(5) by auto
  have d': "(if depth' \<notin> set [''basic'', ''advanced''] then ''basic'' else depth') = depth'"
    using assms(3) by auto
  have t': "(if topic' \<notin> set [''general'', ''news'', ''finance''] then ''general'' else topic') = topic'"
    using assms(4) by auto
  have m': "(if n' < 1 \<or> n' > 20 then 5 else n') = n'"
    using assms(5) by auto
  have cl: "get_tavily_client s = (Inr cl, s)"
    using assms(1,2) by (rule tavily_client)
  note run = tavily_search_run [OF cl, where depth = depth and tp = tp and n = n, unfolded d t m,
      OF assms(6)]
  note run' = tavily_search_run [OF cl, where depth = depth' and tp = topic' and n = n',
      unfolded d' t' m', OF assms(6)]
  have same: "tavily_search lib q depth' topic' days n' include_domains exclude_domains
           include_answer include_raw_content include_images s = (r, s')"
    using run run' assms(7) by simp
  show ?thesis
  proof (cases reply)
    case (Inl e)
    with run assms(7) same show ?thesis by auto
  next
    case (Inr data)
    show ?thesis
    proof (cases "parse_reply lib q depth' topic'
                      (datetime_now lib w1 - datetime_now lib (world s)) data")
      case (Inl e)
      with run assms(7) same Inr show ?thesis by auto
    next
      case res: (Inr res)
      from parse_reply_fields [OF res] run assms(7) same Inr res show ?thesis by auto
    qed
  qed
qed

theorem tavily_search_normalizes_parameters_witness:
  "fst (tavily_search demo_tavilylib ''cats'' ''deep'' ''sports'' None 50 None None
          True False False demo_tavily_state) =
     Inr \<lparr>query = ''cats'', answer = ''An answer'',
          results = [\<lparr>title = ''T'', url = ''http://t'', content = ''Text'', raw_content = None,
                      score = 0.5, published_date = None\<rparr>],
          images = [], search_depth = ''basic'', topic = ''general'', response_time = 1500000,
          total_results = 1\<rparr> \<and>
   map (\<lambda>p. (sp_search_depth p, sp_topic p, sp_max_results p))
     (calls (world (snd (tavily_search demo_tavilylib ''cats'' ''deep'' ''sports'' None 50 None None
                  True False False demo_tavily_state)))) = [(''basic'', ''general'', 5)] \<and>
   tavily_search demo_tavilylib ''cats'' ''basic'' ''general'' None 5 None None
          True False False demo_tavily_state =
     tavily_search demo_tavilylib ''cats'' ''deep'' ''sports'' None 50 None None
          True False False demo_tavily_state"
  using tavily_search_normalizes_parameters
    [where s = demo_tavily_state and cl = "()" and depth = "''deep''" and depth' = "''basic''"
       and tp = "''sports''" and topic' = "''general''" and n = 50 and n' = 5
       and lib = demo_tavilylib and q = "''cats''" and days = None
       and include_answer = True and include_raw_content = False and include_images = False
       and include_domains = None and exclude_domains = None
       and reply = "Inr (demo_reply \<lparr>sp_query = ''cats'', sp_search_depth = ''basic'',
                      sp_topic = ''general'', sp_max_results = 5,
                      sp_include_answer = True, sp_include_raw_content = False,
                      sp_include_images = False, sp_days = None,
                      sp_include_domains = None, sp_exclude_domains = None\<rparr>)"
       and ?w1.0 = "\<lparr>calls = [\<lparr>sp_query = ''cats'', sp_search_depth = ''basic'',
                      sp_topic = ''general'', sp_max_results = 5,
                      sp_include_answer = True, sp_include_raw_content = False,
                      sp_include_images = False, sp_days = None,
                      sp_include_domains = None, sp_exclude_domains = None\<rparr>],
                    clock = 1500000\<rparr>"
       and r = "fst (tavily_search demo_tavilylib ''cats'' ''deep'' ''sports'' None 50 None None
                  True False False demo_tavily_state)"
       and s' = "snd (tavily_search demo_tavilylib ''cats'' ''deep'' ''sports'' None 50 None None
                  True False False demo_tavily_state)"]
  by (simp add: demo_client_search demo_parse_reply demo_tavily_state_def truthy_def
        nonempty_list_def)

subsection \<open>The size bound of a download to memory\<close>

lemmas str_eval = str_int_def str_nat.simps digit_char_def char_of_def bit_Suc_0_iff
  lower_def lower_char_def quoted_def

lemma current_ftp:
  assumes "current_connection (lifespan_context s) = Some k" and "k \<noteq> []"
    and "map_of (connections (lifespan_context s)) k = Some ftp"
  shows "get_current_ftp s = (Inr ftp, s)"
  using assms by (simp add: get_current_ftp_def io_defs truthy_def)

lemma download_too_large:
  assumes "get_current_ftp s = (Inr ftp, s)"
    and "FTP_size lib ftp remote_path (world s) = (Inr (Some sz), w1)"
    and "sz \<noteq> 0" and "sz > max_size_mb * 1024 * 1024"
  shows "ftp_download_content lib remote_path binary_mode encoding max_size_mb s =
           (Inr [(''error'', PyStr (''File too large ('' @ str_int sz
                     @ '' bytes). Maximum allowed: '' @ str_int max_size_mb @ ''MB'')),
                 (''size'', PyInt sz)],
            s\<lparr>world := w1\<rparr>)"
  using assms by (simp add: ftp_download_content_def io_defs)

lemma download_size_not_supported:
  assumes "get_current_ftp s = (Inr ftp, s)"
    and "FTP_size lib ftp remote_path (world s) = (Inl (ErrorPerm t), w1)"
    and "FTP_retrbinary lib ftp (''RETR '' @ remote_path) w1 = (r_retr, w2)"
  shows "ftp_download_content lib remote_path binary_mode encoding max_size_mb s =
           (case r_retr of
              Inl e \<Rightarrow>
                (Inr [(''error'', PyStr (str_exn e))],
                 s\<lparr>world := w2,
                   messages := messages s @
                     [(''info'', ''Downloading content from '' @ remote_path),
                      (''error'', ''Error downloading content: '' @ str_exn e)]\<rparr>)
            | Inr content_bytes \<Rightarrow>
                (case (if binary_mode then Inr (b64encode lib content_bytes)
                       else bytes_decode lib content_bytes encoding) of
                   Inl e \<Rightarrow>
                     (Inr [(''error'', PyStr (str_exn e))],
                      s\<lparr>world := w2,
                        messages := messages s @
                          [(''info'', ''Downloading content from '' @ remote_path),
                           (''error'', ''Error downloading content: '' @ str_exn e)]\<rparr>)
                 | Inr decoded \<Rightarrow>
                     (Inr [(''content'', PyStr decoded),
                           (''size'', PyInt (int (length content_bytes))),
                           (''binary_mode'', PyBool binary_mode),
                           (''encoding'', PyStr (if \<not> binary_mode then encoding else ''base64''))],
                      s\<lparr>world := w2,
                        messages := messages s @
                          [(''info'', ''Downloading content from '' @ remote_path)]\<rparr>)))"
  using assms
  by (cases r_retr; cases binary_mode)
     (auto simp add: ftp_download_content_def io_defs split: sum.splits)

lemma demo_transfer:
  "FTP_size demo_lib h p w =
     (case map_of (sizes w) p of
        None \<Rightarrow> (Inl (ErrorPerm ''550 Could not get file size.''), w)
      | Some n \<Rightarrow> (Inr (Some n), w\<lparr>sent := sent w @ [''SIZE '' @ p]\<rparr>))"
  "FTP_retrbinary demo_lib h cmd w =
     (case map_of (sizes w) (drop 5 cmd) of
        None \<Rightarrow> (Inl (ErrorPerm ''550 Failed to open file.''), w)
      | Some n \<Rightarrow> (Inr (replicate (nat n) CHR ''x''), w\<lparr>sent := sent w @ [cmd]\<rparr>))"
  "bytes_decode demo_lib b enc = Inr b"
  "b64encode demo_lib b = ''eHh4eHg=''"
  by (simp_all add: demo_lib_def)

lemma demo_current_ftp: "get_current_ftp demo_connected = (Inr 1, demo_connected)"
  by (rule current_ftp [where k = "''s2''"]) (simp_all add: demo_connected_def)

text \<open>
  Claim C5. Let the current connection be set, let \<open>max_size_mb\<close> be a maximum size, a
  number of megabytes that is not negative, and let \<open>ftp.size\<close> be asked for the remote
  path. When it reports a size greater than \<open>max_size_mb * 1024 * 1024\<close>,
  \<open>ftp_download_content\<close> returns the dict with the keys \<open>error\<close> and \<open>size\<close> only, the
  text naming the reported size; nothing more is asked of the server (the world is the one
  that the size query left) and no message is sent. When the size query raises
  \<open>error_perm\<close>, the \<open>RETR\<close> transfer is made and its outcome decides the result.
\<close>

theorem download_content_size_bound:
  assumes "current_connection (lifespan_context s) = Some k" and "k \<noteq> []"
    and "map_of (connections (lifespan_context s)) k = Some ftp"
    and "FTP_size lib ftp remote_path (world s) = (r_size, w1)"
    and "FTP_retrbinary lib ftp (''RETR '' @ remote_path) w1 = (r_retr, w2)"
    and "ftp_download_content lib remote_path binary_mode encoding max_size_mb s = (r, s')"
  shows "(\<forall>sz. r_size = Inr (Some sz) \<and> 0 \<le> max_size_mb \<and> sz > max_size_mb * 1024 * 1024 \<longrightarrow>
            r = Inr [(''error'', PyStr (''File too large ('' @ str_int sz
                        @ '' bytes). Maximum allowed: '' @ str_int max_size_mb @ ''MB'')),
                     (''size'', PyInt sz)] \<and>
            world s' = w1 \<and> messages s' = messages s) \<and>
         (\<forall>t. r_size = Inl (ErrorPerm t) \<longrightarrow>
            world s' = w2 \<and>
            (case r_retr of
               Inl e \<Rightarrow> r = Inr [(''error'', PyStr (str_exn e))]
             | Inr content_bytes \<Rightarrow>
                 (case (if binary_mode then Inr (b64encode lib content_bytes)
                        else bytes_decode lib content_bytes encoding) of
                    Inl e \<Rightarrow> r = Inr [(''error'', PyStr (str_exn e))]
                  | Inr decoded \<Rightarrow>
                      r = Inr [(''content'', PyStr decoded),
                               (''size'', PyInt (int (length content_bytes))),
                               (''binary_mode'', PyBool binary_mode),
                               (''encoding'', PyStr (if \<not> binary_mode then encoding
                                                     else ''base64''))])))"
proof (rule conjI; intro allI impI)
  fix sz
  assume a: "r_size = Inr (Some sz) \<and> 0 \<le> max_size_mb \<and> sz > max_size_mb * 1024 * 1024"
  have "ftp_download_content lib remote_path binary_mode encoding max_size_mb s =
          (Inr [(''error'', PyStr (''File too large ('' @ str_int sz
                     @ '' bytes). Maximum allowed: '' @ str_int max_size_mb @ ''MB'')),
                (''size'', PyInt sz)],
           s\<lparr>world := w1\<rparr>)"
    using a assms(4) by (intro download_too_large [OF current_ftp [OF assms(1,2,3)]]) simp_all
  with assms(6)
  show "r = Inr [(''error'', PyStr (''File too large ('' @ str_int sz
                        @ '' bytes). Maximum allowed: '' @ str_int max_size_mb @ ''MB'')),
                     (''size'', PyInt sz)] \<and>
        world s' = w1 \<and> messages s' = messages s"
    by auto
next
  fix t
  assume a: "r_size = Inl (ErrorPerm t)"
  note run = download_size_not_supported
    [OF current_ftp [OF assms(1,2,3)] assms(4) [unfolded a] assms(5),
     of binary_mode encoding max_size_mb]
  show "world s' = w2 \<and>
        (case r_retr of
           Inl e \<Rightarrow> r = Inr [(''error'', PyStr (str_exn e))]
         | Inr content_bytes \<Rightarrow>
             (case (if binary_mode then Inr (b64encode lib content_bytes)
                    else bytes_decode lib content_bytes encoding) of
                Inl e \<Rightarrow> r = Inr [(''error'', PyStr (str_exn e))]
              | Inr decoded \<Rightarrow>
                  r = Inr [(''content'', PyStr decoded),
                           (''size'', PyInt (int (length content_bytes))),
                           (''binary_mode'', PyBool binary_mode),
                           (''encoding'', PyStr (if \<not> binary_mode then encoding
                                                 else ''base64''))]))"
  proof (cases r_retr)
    case (Inl e)
    with run assms(6) show ?thesis by simp
  next
    case got: (Inr content_bytes)
    show ?thesis
    proof (cases "if binary_mode then Inr (b64encode lib content_bytes)
                  else bytes_decode lib content_bytes encoding")
      case (Inl e)
      with run assms(6) got show ?thesis by simp
    next
      case (Inr decoded)
      with run assms(6) got show ?thesis by simp
    qed
  qed
qed

theorem download_content_size_bound_witness:
  "fst (ftp_download_content demo_lib ''big.bin'' False ''utf-8'' 1 demo_connected) =
     Inr [(''error'', PyStr ''File too large (2097152 bytes). Maximum allowed: 1MB''),
          (''size'', PyInt 2097152)] \<and>
   sent (world (snd (ftp_download_content demo_lib ''big.bin'' False ''utf-8'' 1 demo_connected)))
     = [''SIZE big.bin'']"
  using download_content_size_bound
    [where s = demo_connected and k = "''s2''" and ftp = 1 and lib = demo_lib
       and remote_path = "''big.bin''" and r_size = "Inr (Some 2097152)"
       and ?w1.0 = "(world demo_connected)\<lparr>sent := [''SIZE big.bin'']\<rparr>"
       and r_retr = "Inr (replicate 2097152 CHR ''x'')"
       and ?w2.0 = "(world demo_connected)\<lparr>sent := [''SIZE big.bin'', ''RETR big.bin'']\<rparr>"
       and binary_mode = False and encoding = "''utf-8''" and max_size_mb = 1
       and r = "fst (ftp_download_content demo_lib ''big.bin'' False ''utf-8'' 1 demo_connected)"
       and s' = "snd (ftp_download_content demo_lib ''big.bin'' False ''utf-8'' 1 demo_connected)"]
  by (simp add: demo_transfer demo_connected_def demo_world0_def str_eval)

subsection \<open>Directory trees\<close>

lemma join_take_Suc:
  "ss \<noteq> [] \<Longrightarrow> 0 < n \<Longrightarrow> join sep (take (Suc n) (p # ss)) = p @ sep @ join sep (take n ss)"
  by (cases ss; cases n) simp_all

lemma cumulative_prefixes_Nil: "cumulative_prefixes [] = []"
  by (simp add: cumulative_prefixes_def)

lemma cumulative_prefixes_Cons:
  "cumulative_prefixes (p # ss) = p # map (\<lambda>q. p @ ''/'' @ q) (cumulative_prefixes ss)"
proof -
  have idx: "[1 ..< Suc (length (p # ss))] = 1 # map Suc [1 ..< Suc (length ss)]"
    unfolding map_Suc_upt by (simp add: upt_conv_Cons del: upt_Suc)
  have step: "join ''/'' (take (Suc n) (p # ss)) = p @ ''/'' @ join ''/'' (take n ss)"
    if "n \<in> set [1 ..< Suc (length ss)]" for n
  proof -
    from that have "0 < n" and "ss \<noteq> []" by auto
    then show ?thesis by (rule_tac join_take_Suc)
  qed
  have "cumulative_prefixes (p # ss) =
          join ''/'' (take 1 (p # ss)) #
          map (\<lambda>n. join ''/'' (take (Suc n) (p # ss))) [1 ..< Suc (length ss)]"
    unfolding cumulative_prefixes_def idx by (simp add: comp_def del: upt_Suc take_Suc_Cons)
  also have "map (\<lambda>n. join ''/'' (take (Suc n) (p # ss))) [1 ..< Suc (length ss)] =
             map (\<lambda>n. p @ ''/'' @ join ''/'' (take n ss)) [1 ..< Suc (length ss)]"
    by (rule map_cong [OF refl]) (rule step)
  finally show ?thesis
    by (simp add: cumulative_prefixes_def comp_def del: upt_Suc)
qed

lemma prefixes_from_nonempty:
  "cur \<noteq> [] \<Longrightarrow>
   prefixes_from cur parts =
     map (\<lambda>q. cur @ ''/'' @ q) (cumulative_prefixes (filter (\<lambda>p. p \<noteq> []) parts))"
proof (induction parts arbitrary: cur)
  case Nil
  then show ?case by (simp add: cumulative_prefixes_Nil)
next
  case (Cons part rest)
  show ?case
  proof (cases "part = []")
    case True
    with Cons show ?thesis by simp
  next
    case False
    have "prefixes_from (cur @ ''/'' @ part) rest =
            map (\<lambda>q. (cur @ ''/'' @ part) @ ''/'' @ q)
              (cumulative_prefixes (filter (\<lambda>p. p \<noteq> []) rest))"
      by (rule Cons.IH) simp
    with False Cons.prems show ?thesis
      by (simp add: cumulative_prefixes_Cons comp_def)
  qed
qed

lemma prefixes_from_empty:
  "prefixes_from [] parts = cumulative_prefixes (filter (\<lambda>p. p \<noteq> []) parts)"
proof (induction parts)
  case Nil
  then show ?case by (simp add: cumulative_prefixes_Nil)
next
  case (Cons part rest)
  then show ?case
    by (simp add: cumulative_prefixes_Cons prefixes_from_nonempty)
qed

lemma mkd_loop_run:
  "mkd_loop lib ftp parts cur created s =
     (case create_prefixes lib ftp (prefixes_from cur parts) (world s) of
        (c, fatal, w') \<Rightarrow>
          ((case fatal of None \<Rightarrow> Inr (created @ c) | Some e \<Rightarrow> Inl e),
           s\<lparr>world := w',
             messages := messages s @ map (\<lambda>p. (''info'', ''Created directory: '' @ p)) c\<rparr>))"
proof (induction parts arbitrary: cur created s)
  case Nil
  show ?case by (simp add: io_defs)
next
  case (Cons part rest)
  show ?case
  proof (cases "part = []")
    case True
    then show ?thesis by (simp add: Cons.IH)
  next
    case False
    define c where "c = (if cur \<noteq> [] then cur @ ''/'' @ part else part)"
    obtain r w1 where mk: "FTP_mkd lib ftp c (world s) = (r, w1)"
      by (cases "FTP_mkd lib ftp c (world s)")
    have unfold_loop: "mkd_loop lib ftp (part # rest) cur created s =
        io_bind
          (io_try_perm
             (io_bind (call (FTP_mkd lib ftp c)) (\<lambda>_.
              io_bind (ctx_info (''Created directory: '' @ c)) (\<lambda>_.
              io_return (created @ [c]))))
             (\<lambda>t. if contains ''exists'' (lower t) then io_return created
                   else io_raise (ErrorPerm t)))
          (\<lambda>created. mkd_loop lib ftp rest c created) s"
      using False by (simp add: c_def Let_def)
    have unfold_spec: "prefixes_from cur (part # rest) = c # prefixes_from c rest"
      using False by (simp add: c_def Let_def)
    show ?thesis
    proof (cases r)
      case (Inr x)
      show ?thesis
        unfolding unfold_loop unfold_spec
        using mk Inr
        by (simp add: io_defs Cons.IH split: prod.splits option.splits)
    next
      case (Inl e)
      show ?thesis
      proof (cases e)
        case (ErrorPerm t)
        show ?thesis
          unfolding unfold_loop unfold_spec
          using mk Inl ErrorPerm
          by (simp add: io_defs Cons.IH split: prod.splits option.splits)
      next
        case (ValueError t)
        show ?thesis
          unfolding unfold_loop unfold_spec
          using mk Inl ValueError
          by (simp add: io_defs)
      next
        case (OtherError t)
        show ?thesis
          unfolding unfold_loop unfold_spec
          using mk Inl OtherError
          by (simp add: io_defs)
      qed
    qed
  qed
qed

lemma create_directory_tree_run:
  assumes "get_current_ftp s = (Inr ftp, s)"
    and "create_prefixes lib ftp (cumulative_prefixes (path_segments directory_path)) (world s) =
           (created, fatal, w')"
  shows "ftp_create_directory_tree lib directory_path s =
      (Inr (case fatal of
              Some e \<Rightarrow> ''Error creating directory tree: '' @ str_exn e
            | None \<Rightarrow>
                if created \<noteq> []
                then ''Successfully created directories: '' @ join '', '' created
                else ''Directory path already exists: '' @ directory_path),
       s\<lparr>world := w',
         messages := messages s @ map (\<lambda>p. (''info'', ''Created directory: '' @ p)) created @
           (case fatal of
              None \<Rightarrow> []
            | Some e \<Rightarrow> [(''error'', ''Error creating directory tree: '' @ str_exn e)])\<rparr>)"
proof -
  have paths: "prefixes_from [] (split_on CHR ''/'' (strip_char CHR ''/'' directory_path)) =
                 cumulative_prefixes (path_segments directory_path)"
    by (simp add: prefixes_from_empty path_segments_def)
  have loop: "mkd_loop lib ftp (split_on CHR ''/'' (strip_char CHR ''/'' directory_path)) [] [] s =
      ((case fatal of None \<Rightarrow> Inr created | Some e \<Rightarrow> Inl e),
       s\<lparr>world := w',
         messages := messages s @ map (\<lambda>p. (''info'', ''Created directory: '' @ p)) created\<rparr>)"
    by (cases fatal) (simp_all add: mkd_loop_run paths assms(2))
  let ?s1 = "s\<lparr>world := w',
               messages := messages s @ map (\<lambda>p. (''info'', ''Created directory: '' @ p)) created\<rparr>"
  show ?thesis
  proof (cases fatal)
    case None
    with loop have l: "mkd_loop lib ftp (split_on CHR ''/'' (strip_char CHR ''/'' directory_path))
                         [] [] s = (Inr created, ?s1)"
      by simp
    show ?thesis
      unfolding ftp_create_directory_tree_def Let_def
      by (simp add: io_bind_def io_try_def io_return_def assms(1) l None)
  next
    case (Some e)
    with loop have l: "mkd_loop lib ftp (split_on CHR ''/'' (strip_char CHR ''/'' directory_path))
                         [] [] s = (Inl e, ?s1)"
      by simp
    show ?thesis
      unfolding ftp_create_directory_tree_def Let_def
      by (simp add: io_bind_def io_try_def io_return_def ctx_error_def ctx_message_def
            assms(1) l Some)
  qed
qed

lemma demo_mkd:
  "FTP_mkd demo_lib h p w =
     (if p \<in> set (existing w)
      then (Inl (ErrorPerm ''550 Create directory operation failed: File exists''), w)
      else if p \<in> set (readonly w) then (Inl (ErrorPerm ''550 Permission denied.''), w)
      else if p \<in> set (busy w)
      then (Inl (OtherError ''451 Requested action aborted: lock file exists''), w)
      else (Inr p, w\<lparr>existing := existing w @ [p], sent := sent w @ [''MKD '' @ p]\<rparr>))"
  by (simp add: demo_lib_def)

lemma cumulative_prefixes_eval:
  "cumulative_prefixes (path_segments directory_path) =
     prefixes_from [] (split_on CHR ''/'' (strip_char CHR ''/'' directory_path))"
  by (simp add: prefixes_from_empty path_segments_def)

lemma demo_tree_ok:
  "create_prefixes demo_lib 1 (cumulative_prefixes (path_segments ''/a/b/c'')) (world demo_connected)
     = ([''a/b'', ''a/b/c''], None,
        (world demo_connected)\<lparr>existing := [''a'', ''a/b'', ''a/b/c''],
                                 sent := [''MKD a/b'', ''MKD a/b/c'']\<rparr>)"
  by (simp add: cumulative_prefixes_eval strip_char_def demo_mkd demo_connected_def
        demo_world0_def startswith_def str_eval)

lemma demo_tree_busy:
  "create_prefixes demo_lib 1 (cumulative_prefixes (path_segments ''/a/b/busy/c''))
     (world demo_connected)
     = ([''a/b''], Some (OtherError ''451 Requested action aborted: lock file exists''),
        (world demo_connected)\<lparr>existing := [''a'', ''a/b''], sent := [''MKD a/b'']\<rparr>)"
  by (simp add: cumulative_prefixes_eval strip_char_def demo_mkd demo_connected_def
        demo_world0_def startswith_def str_eval)

text \<open>
  Claim C4, as amended. With a current connection, \<open>ftp_create_directory_tree\<close> strips the
  slashes at both ends of the path, splits it at \<open>/\<close>, drops the empty segments, and asks the
  server to create each cumulative prefix in order (\<open>create_prefixes\<close> on
  \<open>cumulative_prefixes (path_segments directory_path)\<close>): an \<open>ftplib.error_perm\<close> whose
  lower-cased text contains \<open>exists\<close> is passed over, and every other exception of \<open>mkd\<close>
  ends the run. The tool always returns a text. After a fatal step the text is
  \<open>Error creating directory tree: \<close> followed by the text of the exception, and nothing
  else; the prefixes created before the fatal step are those of the
  \<open>Created directory: \<close> messages sent through the context, one per created prefix, in
  order, followed by the error message. With no fatal step the text lists the created
  prefixes, or says that the path already exists when none was created.
\<close>

theorem create_directory_tree_outcome:
  assumes "current_connection (lifespan_context s) = Some k" and "k \<noteq> []"
    and "map_of (connections (lifespan_context s)) k = Some ftp"
    and "create_prefixes lib ftp (cumulative_prefixes (path_segments directory_path)) (world s) =
           (created, fatal, w')"
    and "ftp_create_directory_tree lib directory_path s = (r, s')"
  shows "r = Inr (case fatal of
                    Some e \<Rightarrow> ''Error creating directory tree: '' @ str_exn e
                  | None \<Rightarrow>
                      if created \<noteq> []
                      then ''Successfully created directories: '' @ join '', '' created
                      else ''Directory path already exists: '' @ directory_path) \<and>
         world s' = w' \<and>
         messages s' =
           messages s @ map (\<lambda>p. (''info'', ''Created directory: '' @ p)) created @
           (case fatal of
              None \<Rightarrow> []
            | Some e \<Rightarrow> [(''error'', ''Error creating directory tree: '' @ str_exn e)])"
proof -
  have "get_current_ftp s = (Inr ftp, s)"
    by (rule current_ftp [OF assms(1,2,3)])
  from create_directory_tree_run [OF this assms(4)] assms(5)
  show ?thesis by auto
qed

theorem create_directory_tree_outcome_witness:
  "fst (ftp_create_directory_tree demo_lib ''/a/b/c'' demo_connected) =
     Inr ''Successfully created directories: a/b, a/b/c'' \<and>
   existing (world (snd (ftp_create_directory_tree demo_lib ''/a/b/c'' demo_connected))) =
     [''a'', ''a/b'', ''a/b/c''] \<and>
   messages (snd (ftp_create_directory_tree demo_lib ''/a/b/c'' demo_connected)) =
     [(''info'', ''Created directory: a/b''), (''info'', ''Created directory: a/b/c'')]"
  using create_directory_tree_outcome
    [where s = demo_connected and k = "''s2''" and ftp = 1 and lib = demo_lib
       and directory_path = "''/a/b/c''" and created = "[''a/b'', ''a/b/c'']" and fatal = None
       and w' = "(world demo_connected)\<lparr>existing := [''a'', ''a/b'', ''a/b/c''],
                                 sent := [''MKD a/b'', ''MKD a/b/c'']\<rparr>"
       and r = "fst (ftp_create_directory_tree demo_lib ''/a/b/c'' demo_connected)"
       and s' = "snd (ftp_create_directory_tree demo_lib ''/a/b/c'' demo_connected)",
     OF _ _ _ demo_tree_ok]
  by (simp add: demo_connected_def)

text \<open>
  The claim as stated fails on two counts: an exception that is not an \<open>error_perm\<close> ends
  the run although its text contains \<open>exists\<close>, and the returned text does not name the
  prefix \<open>a/b\<close> created before the fatal step.
\<close>

theorem create_directory_tree_counterexample:
  "contains ''exists'' (lower ''451 Requested action aborted: lock file exists'') \<and>
   fst (ftp_create_directory_tree demo_lib ''/a/b/busy/c'' demo_connected) =
     Inr ''Error creating directory tree: 451 Requested action aborted: lock file exists'' \<and>
   existing (world (snd (ftp_create_directory_tree demo_lib ''/a/b/busy/c'' demo_connected))) =
     [''a'', ''a/b''] \<and>
   sent (world (snd (ftp_create_directory_tree demo_lib ''/a/b/busy/c'' demo_connected))) =
     [''MKD a/b''] \<and>
   \<not> contains ''a/b''
       ''Error creating directory tree: 451 Requested action aborted: lock file exists''"
  by (simp add: create_directory_tree_run [OF demo_current_ftp demo_tree_busy])
     (simp add: demo_connected_def startswith_def str_eval)

subsection \<open>Directory listings\<close>

lemma io_bind_InrE:
  assumes "io_bind m f s = (Inr y, s')"
  obtains x s1 where "m s = (Inr x, s1)" and "f x s1 = (Inr y, s')"
  using assms by (auto simp add: io_bind_def split: prod.splits sum.splits)

lemma io_try_reraise_Inr:
  assumes "io_try m (\<lambda>e. io_bind (h e) (\<lambda>_. io_raise e)) s = (Inr y, s')"
  shows "m s = (Inr y, s')"
  using assms
  by (auto simp add: io_try_def io_bind_def io_raise_def split: prod.splits sum.splits)

lemma io_try_perm_InrE:
  assumes "io_try_perm m h s = (Inr y, s')"
  obtains (body) "m s = (Inr y, s')"
  | (handler) t s1 where "m s = (Inl (ErrorPerm t), s1)" and "h t s1 = (Inr y, s')"
  using assms
  by (auto simp add: io_try_perm_def split: prod.splits sum.splits exn.splits)

lemma mlsd_loop_entries:
  assumes "mlsd_loop lib entries (fs, nf, nd) = Inr (fs', nf', nd')"
    and "\<forall>f\<in>set fs. name f \<noteq> ''.'' \<and> name f \<noteq> ''..'' \<and> (type' f = ''directory'' \<or> type' f = ''file'')"
  shows "\<forall>f\<in>set fs'. name f \<noteq> ''.'' \<and> name f \<noteq> ''..'' \<and> (type' f = ''directory'' \<or> type' f = ''file'')"
  using assms
proof (induction entries arbitrary: fs nf nd)
  case Nil
  then show ?case by simp
next
  case (Cons entry rest)
  obtain nm facts where entry: "entry = (nm, facts)" by (cases entry)
  show ?case
  proof (cases "nm = ''.'' \<or> nm = ''..''")
    case True
    with Cons.prems(1) entry have "mlsd_loop lib rest (fs, nf, nd) = Inr (fs', nf', nd')"
      by auto
    from Cons.IH [OF this Cons.prems(2)] show ?thesis .
  next
    case False
    with Cons.prems(1) entry obtain info nf1 nd1 where
      step: "mlsd_loop lib rest (fs @ [info], nf1, nd1) = Inr (fs', nf', nd')"
      and info: "name info = nm" "type' info = ''directory'' \<or> type' info = ''file''"
      by (auto simp add: Let_def split: sum.splits option.splits if_splits)
    have "\<forall>f\<in>set (fs @ [info]). name f \<noteq> ''.'' \<and> name f \<noteq> ''..'' \<and>
            (type' f = ''directory'' \<or> type' f = ''file'')"
      using Cons.prems(2) info False by auto
    from Cons.IH [OF step this] show ?thesis .
  qed
qed

lemma list_loop_entries:
  assumes "list_loop lib year lines (fs, nf, nd) = (fs', nf', nd')"
    and "\<forall>f\<in>set fs. name f \<noteq> ''.'' \<and> name f \<noteq> ''..'' \<and> (type' f = ''directory'' \<or> type' f = ''file'')"
  shows "\<forall>f\<in>set fs'. name f \<noteq> ''.'' \<and> name f \<noteq> ''..'' \<and> (type' f = ''directory'' \<or> type' f = ''file'')"
  using assms
proof (induction lines arbitrary: fs nf nd)
  case Nil
  then show ?case by simp
next
  case (Cons line rest)
  let ?nm = "join '' '' (drop 8 (str_split line))"
  show ?case
  proof (cases "str_strip line \<noteq> [] \<and> 9 \<le> length (str_split line) \<and> ?nm \<noteq> ''.'' \<and> ?nm \<noteq> ''..''")
    case False
    with Cons.prems(1) have "list_loop lib year rest (fs, nf, nd) = (fs', nf', nd')"
      by (simp add: Let_def split: if_splits)
    from Cons.IH [OF this Cons.prems(2)] show ?thesis .
  next
    case True
    with Cons.prems(1) obtain info nf1 nd1 where
      step: "list_loop lib year rest (fs @ [info], nf1, nd1) = (fs', nf', nd')"
      and info: "name info = ?nm" "type' info = ''directory'' \<or> type' info = ''file''"
      by (auto simp add: Let_def split: if_splits)
    have "\<forall>f\<in>set (fs @ [info]). name f \<noteq> ''.'' \<and> name f \<noteq> ''..'' \<and>
            (type' f = ''directory'' \<or> type' f = ''file'')"
      using Cons.prems(2) info True by auto
    from Cons.IH [OF step this] show ?thesis .
  qed
qed

lemma nlst_loop_entries:
  assumes "nlst_loop lib ftp names (fs, nf, nd) s = (Inr (fs', nf', nd'), s')"
    and "\<forall>f\<in>set fs. name f \<noteq> ''.'' \<and> name f \<noteq> ''..'' \<and> (type' f = ''directory'' \<or> type' f = ''file'')"
  shows "\<forall>f\<in>set fs'. name f \<noteq> ''.'' \<and> name f \<noteq> ''..'' \<and> (type' f = ''directory'' \<or> type' f = ''file'')"
  using assms
proof (induction names arbitrary: fs nf nd s)
  case Nil
  then show ?case by (simp add: io_return_def)
next
  case (Cons nm rest)
  show ?case
  proof (cases "nm = ''.'' \<or> nm = ''..''")
    case True
    with Cons.prems(1) have "nlst_loop lib ftp rest (fs, nf, nd) s = (Inr (fs', nf', nd'), s')"
      by auto
    from Cons.IH [OF this Cons.prems(2)] show ?thesis .
  next
    case False
    let ?probe = "io_try_perm
             (io_bind (call (FTP_pwd lib ftp)) (\<lambda>original_pwd.
              io_bind (call (FTP_cwd lib ftp nm)) (\<lambda>_.
              io_bind (call (FTP_cwd lib ftp original_pwd)) (\<lambda>_.
              io_return (''directory'', nf, nd + 1)))))
             (\<lambda>_. io_return (''file'', nf + 1, nd))"
    from Cons.prems(1) False have
      "io_bind ?probe
          (\<lambda>(file_type, nf, nd).
             nlst_loop lib ftp rest
               (fs @ [\<lparr>name = nm, type' = file_type, size' = None,
                        modified = None, permissions = None\<rparr>],
                nf, nd)) s = (Inr (fs', nf', nd'), s')"
      by simp
    then obtain x s1 where probe: "?probe s = (Inr x, s1)"
      and rest: "(case x of (file_type, nf, nd) \<Rightarrow>
             nlst_loop lib ftp rest
               (fs @ [\<lparr>name = nm, type' = file_type, size' = None,
                        modified = None, permissions = None\<rparr>],
                nf, nd)) s1 = (Inr (fs', nf', nd'), s')"
      by (rule io_bind_InrE)
    obtain t nf1 nd1 where x: "x = (t, nf1, nd1)" by (cases x)
    from probe have "fst x = ''directory'' \<or> fst x = ''file''"
    proof (cases rule: io_try_perm_InrE)
      case body
      then show ?thesis
        by (auto simp add: io_return_def elim!: io_bind_InrE)
    next
      case (handler msg s2)
      then show ?thesis by (auto simp add: io_return_def)
    qed
    with x have t: "t = ''directory'' \<or> t = ''file''" by simp
    let ?info = "\<lparr>name = nm, type' = t, size' = None, modified = None, permissions = None\<rparr>"
    from rest x have step:
      "nlst_loop lib ftp rest (fs @ [?info], nf1, nd1) s1 = (Inr (fs', nf', nd'), s')"
      by simp
    have "\<forall>f\<in>set (fs @ [?info]). name f \<noteq> ''.'' \<and> name f \<noteq> ''..'' \<and>
            (type' f = ''directory'' \<or> type' f = ''file'')"
      using Cons.prems(2) t False by auto
    from Cons.IH [OF step this] show ?thesis .
  qed
qed

lemma detailed_listing_entries:
  assumes "detailed_listing lib ftp s = (Inr (fs, nf, nd), s')"
  shows "\<forall>f\<in>set fs. name f \<noteq> ''.'' \<and> name f \<noteq> ''..'' \<and> (type' f = ''directory'' \<or> type' f = ''file'')"
  using assms unfolding detailed_listing_def
proof (cases rule: io_try_perm_InrE)
  case body
  then obtain entries s1 where
    "(case mlsd_loop lib entries ([], 0, 0) of Inl e \<Rightarrow> io_raise e | Inr acc \<Rightarrow> io_return acc) s1
       = (Inr (fs, nf, nd), s')"
    by (rule io_bind_InrE)
  then have "mlsd_loop lib entries ([], 0, 0) = Inr (fs, nf, nd)"
    by (simp add: io_return_def io_raise_def split: sum.splits)
  then show ?thesis by (rule mlsd_loop_entries) simp
next
  case (handler t s1)
  then obtain year listing where "list_loop lib year listing ([], 0, 0) = (fs, nf, nd)"
    by (auto simp add: io_return_def elim!: io_bind_InrE)
  then show ?thesis by (rule list_loop_entries) simp
qed

lemma list_directory_files:
  assumes "ftp_list_directory lib directory detailed s = (Inr listing, s')"
  obtains fs where "files listing = sort_files fs"
    and "\<forall>f\<in>set fs. name f \<noteq> ''.'' \<and> name f \<noteq> ''..'' \<and> (type' f = ''directory'' \<or> type' f = ''file'')"
proof -
  from assms have "io_bind get_current_ftp (\<lambda>ftp.
        io_bind (call (FTP_pwd lib ftp)) (\<lambda>original_dir.
        io_bind (when_directory directory (\<lambda>d. call (FTP_cwd lib ftp d))) (\<lambda>_.
        io_bind (call (FTP_pwd lib ftp)) (\<lambda>current_dir.
        io_bind (if detailed then detailed_listing lib ftp
                 else io_bind (call (FTP_nlst lib ftp)) (\<lambda>names.
                      nlst_loop lib ftp names ([], 0, 0)))
          (\<lambda>(files, total_files, total_directories).
        io_bind (when_directory directory (\<lambda>_. call (FTP_cwd lib ftp original_dir))) (\<lambda>_.
        io_return
          \<lparr>current_directory = current_dir,
           files = sort_files files,
           total_files = total_files,
           total_directories = total_directories\<rparr>)))))) s = (Inr listing, s')"
    unfolding ftp_list_directory_def by (rule io_try_reraise_Inr)
  then obtain ftp original_dir current_dir acc s4 s5 where
    loop: "(if detailed then detailed_listing lib ftp
            else io_bind (call (FTP_nlst lib ftp)) (\<lambda>names.
                 nlst_loop lib ftp names ([], 0, 0))) s4 = (Inr acc, s5)"
    and fin: "(case acc of (fs0, nf0, nd0) \<Rightarrow>
        io_bind (when_directory directory (\<lambda>_. call (FTP_cwd lib ftp original_dir))) (\<lambda>_.
        io_return
          \<lparr>current_directory = current_dir,
           files = sort_files fs0,
           total_files = nf0,
           total_directories = nd0\<rparr>)) s5 = (Inr listing, s')"
    by (elim io_bind_InrE) blast
  obtain fs nf nd where acc: "acc = (fs, nf, nd)" by (cases acc)
  from fin acc have sorted: "files listing = sort_files fs"
    by (auto simp add: io_return_def elim!: io_bind_InrE)
  have "\<forall>f\<in>set fs. name f \<noteq> ''.'' \<and> name f \<noteq> ''..'' \<and> (type' f = ''directory'' \<or> type' f = ''file'')"
  proof (cases detailed)
    case True
    with loop acc have "detailed_listing lib ftp s4 = (Inr (fs, nf, nd), s5)" by simp
    then show ?thesis by (rule detailed_listing_entries)
  next
    case False
    with loop acc obtain names s6 where
      "nlst_loop lib ftp names ([], 0, 0) s6 = (Inr (fs, nf, nd), s5)"
      by (auto elim!: io_bind_InrE)
    then show ?thesis by (rule nlst_loop_entries) simp
  qed
  with sorted show ?thesis by (rule that)
qed

lemmas builtin_eval = demo_int_def int_literal_def is_digit_def digits_val_def py_repr_def
  repr_char_def hex_digit_def demo_reformat_def match_directive_def days_in_month_def pad2_def

lemma demo_listing:
  "FTP_pwd demo_lib h w = (Inr ''/'', w)"
  "FTP_cwd demo_lib h d w =
     (if d = ''/'' \<or> d \<in> set (existing w) \<or> d = ''sub'' then (Inr (), w)
      else (Inl (ErrorPerm ''550 Failed to change directory.''), w))"
  "FTP_mlsd demo_lib h w =
     (case mlsd_reply w of
        None \<Rightarrow> (Inl (ErrorPerm ''500 Unknown command.''), w)
      | Some entries \<Rightarrow> (Inr entries, w))"
  "FTP_retrlines demo_lib h cmd w = (Inr (list_reply w), w\<lparr>sent := sent w @ [cmd]\<rparr>)"
  "FTP_nlst demo_lib h w = (Inr (nlst_reply w), w)"
  "int_of_str demo_lib = demo_int"
  "reformat_modify demo_lib = demo_reformat"
  "now_year demo_lib w = clock_year w"
  by (simp_all add: demo_lib_def)

lemma demo_nlst_run:
  "ftp_list_directory demo_lib None False demo_connected =
     (Inr \<lparr>current_directory = ''/'',
           files = [\<lparr>name = ''sub'', type' = ''directory'', size' = None,
                     modified = None, permissions = None\<rparr>,
                    \<lparr>name = ''a.txt'', type' = ''file'', size' = None,
                     modified = None, permissions = None\<rparr>],
           total_files = 1, total_directories = 1\<rparr>,
      demo_connected)"
  by (simp add: ftp_list_directory_def get_current_ftp_def truthy_def io_defs when_directory_def
        demo_listing demo_connected_def demo_world0_def sort_files_def less_eq_prod_def less_eq_char_def
        str_eval)

lemma demo_mlsd_run:
  "ftp_list_directory demo_lib (Some ''a'') True demo_mlsd =
     (Inr \<lparr>current_directory = ''/'',
           files = [\<lparr>name = ''alpha'', type' = ''directory'', size' = None,
                     modified = None, permissions = None\<rparr>,
                    \<lparr>name = ''Docs'', type' = ''directory'', size' = None,
                     modified = None, permissions = Some ''el''\<rparr>,
                    \<lparr>name = ''z.txt'', type' = ''file'', size' = Some 3,
                     modified = Some ''2024-01-02 03:04:05'', permissions = None\<rparr>],
           total_files = 1, total_directories = 2\<rparr>,
      demo_mlsd)"
  by (simp add: ftp_list_directory_def get_current_ftp_def truthy_def io_defs when_directory_def
        detailed_listing_def demo_listing demo_mlsd_def builtin_eval Let_def
        str_strip_def isspace_def startswith_def
        demo_connected_def demo_world0_def sort_files_def less_eq_prod_def less_eq_char_def
        str_eval)

lemma demo_list_run:
  "ftp_list_directory demo_lib None True demo_connected =
     (Inr \<lparr>current_directory = ''/'',
           files = [\<lparr>name = ''Sub'', type' = ''directory'', size' = None,
                     modified = Some ''2025-Jan-5 10:30'', permissions = Some ''drwxr-xr-x''\<rparr>,
                    \<lparr>name = ''A.txt'', type' = ''file'', size' = Some 7,
                     modified = Some ''2025-Feb-1 08:15'', permissions = Some ''-rw-r--r--''\<rparr>,
                    \<lparr>name = ''b notes.txt'', type' = ''file'', size' = Some 120,
                     modified = Some ''2021-Mar-9'', permissions = Some ''-rw-r--r--''\<rparr>],
           total_files = 2, total_directories = 1\<rparr>,
      demo_connected\<lparr>world := (world demo_connected)\<lparr>sent := [''LIST'']\<rparr>,
                     messages := [(''warning'', ''MLSD not supported, using LIST command'')]\<rparr>)"
  by (simp add: ftp_list_directory_def get_current_ftp_def truthy_def io_defs when_directory_def
        detailed_listing_def demo_listing builtin_eval Let_def
        str_split_def str_strip_def isspace_def startswith_def
        demo_connected_def demo_world0_def sort_files_def less_eq_prod_def less_eq_char_def
        str_eval)

text \<open>
  Claim C6. Whenever \<open>ftp_list_directory\<close> returns a listing, whichever of the three loops
  has produced the entries (the pairs of \<open>MLSD\<close>, the lines of \<open>LIST\<close>, or the names of
  \<open>NLST\<close>), no entry of \<open>files\<close> is named \<open>.\<close> or \<open>..\<close>, and \<open>files\<close> is sorted by the key
  \<open>(type == 'file', name.lower())\<close>: of two entries the earlier one is a directory or the
  later one is a file, and two entries of the same type are in the order of their
  lower-cased names.
\<close>

theorem list_directory_normalized:
  assumes "ftp_list_directory lib directory detailed s = (Inr listing, s')"
  shows "(\<forall>f\<in>set (files listing). name f \<noteq> ''.'' \<and> name f \<noteq> ''..'') \<and>
         sorted (map (\<lambda>x. (type' x = ''file'', lower (name x))) (files listing)) \<and>
         (\<forall>i j. i < j \<and> j < length (files listing) \<longrightarrow>
            (type' (files listing ! i) = ''directory'' \<or> type' (files listing ! j) = ''file'') \<and>
            (type' (files listing ! i) = type' (files listing ! j) \<longrightarrow>
               lower (name (files listing ! i)) \<le> lower (name (files listing ! j))))"
proof -
  from assms obtain fs where fs: "files listing = sort_files fs"
    and entries: "\<forall>f\<in>set fs. name f \<noteq> ''.'' \<and> name f \<noteq> ''..'' \<and>
                    (type' f = ''directory'' \<or> type' f = ''file'')"
    by (rule list_directory_files)
  have set_eq: "set (files listing) = set fs"
    by (simp add: fs sort_files_def)
  have key: "sorted (map (\<lambda>x. (type' x = ''file'', lower (name x))) (files listing))"
    by (simp add: fs sort_files_def)
  have names: "\<forall>f\<in>set (files listing). name f \<noteq> ''.'' \<and> name f \<noteq> ''..''"
    using entries set_eq by simp
  have order: "(type' (files listing ! i) = ''directory'' \<or> type' (files listing ! j) = ''file'') \<and>
            (type' (files listing ! i) = type' (files listing ! j) \<longrightarrow>
               lower (name (files listing ! i)) \<le> lower (name (files listing ! j)))"
    if "i < j" and "j < length (files listing)" for i j
  proof -
    from that have "i < length (files listing)" by simp
    with that have le: "(type' (files listing ! i) = ''file'', lower (name (files listing ! i)))
                  \<le> (type' (files listing ! j) = ''file'', lower (name (files listing ! j)))"
      using sorted_nth_mono [OF key, of i j] by simp
    have ti: "type' (files listing ! i) = ''directory'' \<or> type' (files listing ! i) = ''file''"
      using entries set_eq \<open>i < length (files listing)\<close> nth_mem by blast
    have tj: "type' (files listing ! j) = ''directory'' \<or> type' (files listing ! j) = ''file''"
      using entries set_eq that(2) nth_mem by blast
    from le ti tj show ?thesis
      by (auto simp add: less_eq_prod_def)
  qed
  from names key order show ?thesis by blast
qed


theorem list_directory_normalized_witness:
  "(\<exists>listing s'. ftp_list_directory demo_lib (Some ''a'') True demo_mlsd = (Inr listing, s') \<and>
      map name (files listing) = [''alpha'', ''Docs'', ''z.txt''] \<and>
      (\<forall>f\<in>set (files listing). name f \<noteq> ''.'' \<and> name f \<noteq> ''..'') \<and>
      sorted (map (\<lambda>x. (type' x = ''file'', lower (name x))) (files listing))) \<and>
   (\<exists>listing s'. ftp_list_directory demo_lib None True demo_connected = (Inr listing, s') \<and>
      map name (files listing) = [''Sub'', ''A.txt'', ''b notes.txt''] \<and>
      (\<forall>f\<in>set (files listing). name f \<noteq> ''.'' \<and> name f \<noteq> ''..'') \<and>
      sorted (map (\<lambda>x. (type' x = ''file'', lower (name x))) (files listing))) \<and>
   (\<exists>listing s'. ftp_list_directory demo_lib None False demo_connected = (Inr listing, s') \<and>
      map name (files listing) = [''sub'', ''a.txt''] \<and>
      (\<forall>f\<in>set (files listing). name f \<noteq> ''.'' \<and> name f \<noteq> ''..'') \<and>
      sorted (map (\<lambda>x. (type' x = ''file'', lower (name x))) (files listing)))"
  using list_directory_normalized [OF demo_mlsd_run] demo_mlsd_run
    list_directory_normalized [OF demo_list_run] demo_list_run
    list_directory_normalized [OF demo_nlst_run] demo_nlst_run
  by simp

subsection \<open>The legacy listing\<close>

lemma split_acc_spaces: "list_all isspace s \<Longrightarrow> split_acc [] s = []"
  by (induction s) simp_all

lemma dropWhile_all: "dropWhile P xs = [] \<Longrightarrow> list_all P xs"
  by (induction xs) (auto split: if_splits)

lemma str_strip_empty:
  assumes "str_strip s = []"
  shows "str_split s = []"
proof -
  from assms have "dropWhile isspace (rev (dropWhile isspace s)) = []"
    by (simp add: str_strip_def)
  then have "list_all isspace (rev (dropWhile isspace s))" by (rule dropWhile_all)
  then have all: "list_all isspace (dropWhile isspace s)" by (simp add: list_all_iff)
  have "dropWhile isspace s = []"
  proof (cases "dropWhile isspace s")
    case Nil
    then show ?thesis .
  next
    case (Cons c cs)
    then have "\<not> isspace c" using hd_dropWhile [of isspace s] by auto
    with all Cons show ?thesis by simp
  qed
  then have "list_all isspace s" by (rule dropWhile_all)
  then show ?thesis by (simp add: str_split_def split_acc_spaces)
qed

lemma contains_char: "contains [c] s \<longleftrightarrow> c \<in> set s"
  by (induction s) (auto simp add: startswith_def)

lemma startswith_char: "startswith s [c] \<longleftrightarrow> s \<noteq> [] \<and> hd s = c"
  by (cases s) (auto simp add: startswith_def)

lemma list_loop_legacy:
  "list_loop lib year listing (fs, nf, nd) =
     (fs @ map (legacy_entry lib year) (legacy_tokens listing),
      nf + int (length (filter (\<lambda>e. type' e = ''file'')
                          (map (legacy_entry lib year) (legacy_tokens listing)))),
      nd + int (length (filter (\<lambda>e. type' e = ''directory'')
                          (map (legacy_entry lib year) (legacy_tokens listing)))))"
proof (induction listing arbitrary: fs nf nd)
  case Nil
  show ?case by (simp add: legacy_tokens_def)
next
  case (Cons line rest)
  let ?tokens = "str_split line"
  have tokens: "legacy_tokens (line # rest) =
      (if 9 \<le> length ?tokens \<and> join '' '' (drop 8 ?tokens) \<notin> {''.'', ''..''}
       then ?tokens # legacy_tokens rest else legacy_tokens rest)"
    by (simp add: legacy_tokens_def)
  show ?case
  proof (cases "9 \<le> length ?tokens \<and> join '' '' (drop 8 ?tokens) \<notin> {''.'', ''..''}")
    case False
    then have "list_loop lib year (line # rest) (fs, nf, nd) = list_loop lib year rest (fs, nf, nd)"
      by (auto simp add: Let_def str_strip_empty)
    with False tokens show ?thesis by (simp add: Cons.IH)
  next
    case True
    then have "str_strip line \<noteq> []" using str_strip_empty [of line] by auto
    with True have "list_loop lib year (line # rest) (fs, nf, nd) =
        list_loop lib year rest
          (fs @ [legacy_entry lib year ?tokens],
           (if type' (legacy_entry lib year ?tokens) = ''directory'' then nf else nf + 1),
           (if type' (legacy_entry lib year ?tokens) = ''directory'' then nd + 1 else nd))"
      by (simp add: Let_def legacy_entry_def contains_char startswith_char)
    with True tokens show ?thesis
      by (simp add: Cons.IH legacy_entry_def Let_def)
  qed
qed

lemma detailed_listing_legacy:
  assumes "FTP_mlsd lib ftp (world s) = (Inl (ErrorPerm t), w1)"
    and "detailed_listing lib ftp s = (Inr acc, s')"
  shows "\<exists>listing w2. FTP_retrlines lib ftp ''LIST'' w1 = (Inr listing, w2) \<and>
           acc = list_loop lib (now_year lib w2) listing ([], 0, 0)"
  using assms
  by (auto simp add: detailed_listing_def io_defs split: prod.splits sum.splits)

lemma sort_files_count:
  "length (filter P (sort_files fs)) = length (filter P fs)"
  by (simp add: sort_files_def filter_sort)

lemma list_directory_legacy_run:
  assumes "get_current_ftp s = (Inr ftp, s)"
    and "call (FTP_pwd lib ftp) s = (Inr original_dir, s1)"
    and "when_directory directory (\<lambda>d. call (FTP_cwd lib ftp d)) s1 = (Inr (), s2)"
    and "call (FTP_pwd lib ftp) s2 = (Inr current_dir, s3)"
    and "FTP_mlsd lib ftp (world s3) = (Inl (ErrorPerm t), w4)"
    and "ftp_list_directory lib directory True s = (Inr listing, s')"
  shows "\<exists>reply w5. FTP_retrlines lib ftp ''LIST'' w4 = (Inr reply, w5) \<and>
           listing =
             (case list_loop lib (now_year lib w5) reply ([], 0, 0) of
                (fs, nf, nd) \<Rightarrow>
                  \<lparr>current_directory = current_dir, files = sort_files fs,
                   total_files = nf, total_directories = nd\<rparr>)"
proof -
  from assms(6) have "io_bind get_current_ftp (\<lambda>ftp.
        io_bind (call (FTP_pwd lib ftp)) (\<lambda>original_dir.
        io_bind (when_directory directory (\<lambda>d. call (FTP_cwd lib ftp d))) (\<lambda>_.
        io_bind (call (FTP_pwd lib ftp)) (\<lambda>current_dir.
        io_bind (if True then detailed_listing lib ftp
                 else io_bind (call (FTP_nlst lib ftp)) (\<lambda>names.
                      nlst_loop lib ftp names ([], 0, 0)))
          (\<lambda>(fs0, nf0, nd0).
        io_bind (when_directory directory (\<lambda>_. call (FTP_cwd lib ftp original_dir))) (\<lambda>_.
        io_return
          \<lparr>current_directory = current_dir,
           files = sort_files fs0,
           total_files = nf0,
           total_directories = nd0\<rparr>)))))) s = (Inr listing, s')"
    unfolding ftp_list_directory_def by (rule io_try_reraise_Inr)
  then have "io_bind (detailed_listing lib ftp)
          (\<lambda>(fs0, nf0, nd0).
        io_bind (when_directory directory (\<lambda>_. call (FTP_cwd lib ftp original_dir))) (\<lambda>_.
        io_return
          \<lparr>current_directory = current_dir,
           files = sort_files fs0,
           total_files = nf0,
           total_directories = nd0\<rparr>)) s3 = (Inr listing, s')"
    by (simp add: io_bind_def assms(1,2,3,4))
  then obtain acc s5 where loop: "detailed_listing lib ftp s3 = (Inr acc, s5)"
    and fin: "(case acc of (fs0, nf0, nd0) \<Rightarrow>
        io_bind (when_directory directory (\<lambda>_. call (FTP_cwd lib ftp original_dir))) (\<lambda>_.
        io_return
          \<lparr>current_directory = current_dir,
           files = sort_files fs0,
           total_files = nf0,
           total_directories = nd0\<rparr>)) s5 = (Inr listing, s')"
    by (rule io_bind_InrE)
  from detailed_listing_legacy [OF assms(5) loop] obtain reply w5 where
    list: "FTP_retrlines lib ftp ''LIST'' w4 = (Inr reply, w5)"
    and acc: "acc = list_loop lib (now_year lib w5) reply ([], 0, 0)"
    by blast
  obtain fs nf nd where parts: "acc = (fs, nf, nd)" by (cases acc)
  from fin parts have "listing =
      \<lparr>current_directory = current_dir, files = sort_files fs,
       total_files = nf, total_directories = nd\<rparr>"
    by (auto simp add: io_return_def elim!: io_bind_InrE)
  moreover from acc parts have "list_loop lib (now_year lib w5) reply ([], 0, 0) = (fs, nf, nd)"
    by simp
  ultimately show ?thesis using list by simp
qed

lemma demo_list_steps:
  "call (FTP_pwd demo_lib 1) demo_connected = (Inr ''/'', demo_connected)"
  "when_directory None (\<lambda>d. call (FTP_cwd demo_lib 1 d)) demo_connected = (Inr (), demo_connected)"
  "FTP_mlsd demo_lib 1 (world demo_connected) =
     (Inl (ErrorPerm ''500 Unknown command.''), world demo_connected)"
  "FTP_retrlines demo_lib 1 ''LIST'' (world demo_connected) =
     (Inr (list_reply demo_world0), (world demo_connected)\<lparr>sent := [''LIST'']\<rparr>)"
  by (simp_all add: call_def when_directory_def io_return_def demo_listing
        demo_connected_def demo_world0_def)

lemma demo_connected_world:
  "clock_year (world demo_connected) = 2025"
  "list_reply (world demo_connected) = list_reply demo_world0"
  by (simp_all add: demo_connected_def demo_world0_def)

text \<open>
  Claim C7. Let a detailed listing reach \<open>ftp.mlsd()\<close>, and let that call raise
  \<open>error_perm\<close>. Then every listing that \<open>ftp_list_directory\<close> returns is made from the
  lines of the \<open>LIST\<close> reply: each line with at least 9 whitespace-separated tokens, and a
  name other than \<open>.\<close> and \<open>..\<close>, gives the entry \<open>legacy_entry\<close> of its tokens, where
  token 0 is the permission string and a leading \<open>d\<close> makes a directory, token 4 is the
  size of a file, tokens 5 to 7 are the date (with the current year when token 7 has a
  colon, with token 7 as the year otherwise), and the tokens from 8 on, joined by single
  spaces, are the name. The other lines give nothing. The entries are returned in sorted
  order and counted by type.
\<close>

theorem legacy_listing_parse:
  assumes "get_current_ftp s = (Inr ftp, s)"
    and "call (FTP_pwd lib ftp) s = (Inr original_dir, s1)"
    and "when_directory directory (\<lambda>d. call (FTP_cwd lib ftp d)) s1 = (Inr (), s2)"
    and "call (FTP_pwd lib ftp) s2 = (Inr current_dir, s3)"
    and "FTP_mlsd lib ftp (world s3) = (Inl (ErrorPerm t), w4)"
    and "ftp_list_directory lib directory True s = (Inr listing, s')"
  shows "\<exists>reply w5.
           FTP_retrlines lib ftp ''LIST'' w4 = (Inr reply, w5) \<and>
           files listing = sort_files (map (legacy_entry lib (now_year lib w5)) (legacy_tokens reply)) \<and>
           total_files listing = int (length (filter (\<lambda>e. type' e = ''file'') (files listing))) \<and>
           total_directories listing =
             int (length (filter (\<lambda>e. type' e = ''directory'') (files listing)))"
proof -
  from list_directory_legacy_run [OF assms] obtain reply w5 where
    list: "FTP_retrlines lib ftp ''LIST'' w4 = (Inr reply, w5)"
    and listing: "listing =
             (case list_loop lib (now_year lib w5) reply ([], 0, 0) of
                (fs, nf, nd) \<Rightarrow>
                  \<lparr>current_directory = current_dir, files = sort_files fs,
                   total_files = nf, total_directories = nd\<rparr>)"
    by blast
  from listing have "files listing =
       sort_files (map (legacy_entry lib (now_year lib w5)) (legacy_tokens reply)) \<and>
     total_files listing = int (length (filter (\<lambda>e. type' e = ''file'') (files listing))) \<and>
     total_directories listing =
       int (length (filter (\<lambda>e. type' e = ''directory'') (files listing)))"
    by (simp add: list_loop_legacy sort_files_count)
  with list show ?thesis by blast
qed

theorem legacy_listing_parse_witness:
  "\<exists>listing s'.
     ftp_list_directory demo_lib None True demo_connected = (Inr listing, s') \<and>
     files listing =
       [\<lparr>name = ''Sub'', type' = ''directory'', size' = None,
         modified = Some ''2025-Jan-5 10:30'', permissions = Some ''drwxr-xr-x''\<rparr>,
        \<lparr>name = ''A.txt'', type' = ''file'', size' = Some 7,
         modified = Some ''2025-Feb-1 08:15'', permissions = Some ''-rw-r--r--''\<rparr>,
        \<lparr>name = ''b notes.txt'', type' = ''file'', size' = Some 120,
         modified = Some ''2021-Mar-9'', permissions = Some ''-rw-r--r--''\<rparr>] \<and>
     files listing =
       sort_files (map (legacy_entry demo_lib 2025) (legacy_tokens (list_reply demo_world0))) \<and>
     total_files listing = 2 \<and> total_directories listing = 1"
  using legacy_listing_parse [OF demo_current_ftp demo_list_steps(1,2,1,3) demo_list_run]
    demo_list_run
  by (auto simp add: demo_list_steps demo_listing demo_connected_world)

subsection \<open>Errors at the boundary of a tool\<close>















end
